theory Spec2Isabelle
  imports Main "HOL-Library.Char_ord" "HOL-Library.List_Lexorder" "HOL-Library.Word"
begin

section \<open>Errors\<close>

text \<open>
  A Go \<open>error\<close> is a value with an \<open>Error()\<close> text. The constructors record which call
  produced the value: \<open>ErrorsNew\<close> is \<open>errors.New(text)\<close>, the only errors the client
  creates itself; the other four are the errors handed back by the standard library
  (\<open>json.Marshal\<close>, \<open>http.NewRequest\<close>, \<open>http.Client.Do\<close>, \<open>json.Decoder.Decode\<close>).
\<close>

datatype error =
    ErrorsNew string
  | MarshalError string
  | RequestError string
  | TransportError string
  | DecodeError string

fun Error :: "error \<Rightarrow> string" where
  "Error (ErrorsNew s) = s"
| "Error (MarshalError s) = s"
| "Error (RequestError s) = s"
| "Error (TransportError s) = s"
| "Error (DecodeError s) = s"

section \<open>Schedule formatter\<close>

text \<open>\<open>strings.HasPrefix(s, prefix)\<close>: \<open>len(s) >= len(prefix) && s[:len(prefix)] == prefix\<close>.\<close>

definition HasPrefix :: "string \<Rightarrow> string \<Rightarrow> bool" where
  "HasPrefix s pre = (length pre \<le> length s \<and> take (length pre) s = pre)"

definition validateReps :: "string \<Rightarrow> error option" where
  "validateReps reps =
     (if HasPrefix reps ''R'' then None
      else Some (ErrorsNew ''Repetitions string not formatted correctly''))"

definition validateInterval :: "string \<Rightarrow> error option" where
  "validateInterval interval =
     (if HasPrefix interval ''P'' then None
      else Some (ErrorsNew ''Interval string not formatted correctly''))"

text \<open>
  A \<open>time.Time\<close> is an instant (seconds since January 1, year 1, 00:00:00 UTC, and
  nanoseconds within the second) with a location, kept here as its offset east of UTC in
  seconds. \<open>IsZero\<close> looks at the instant only.
\<close>

record Time =
  sec :: int
  nsec :: int
  offset :: int

definition IsZero :: "Time \<Rightarrow> bool" where
  "IsZero t = (sec t = 0 \<and> nsec t = 0)"

definition RFC3339Nano :: string where
  "RFC3339Nano = ''2006-01-02T15:04:05.999999999Z07:00''"

text \<open>
  \<open>t.Format(layout)\<close> belongs to the standard library's time package; it is the
  parameter \<open>Format\<close> of everything that renders a time.
\<close>

definition formatTimeString :: "(Time \<Rightarrow> string \<Rightarrow> string) \<Rightarrow> Time \<Rightarrow> string" where
  "formatTimeString Format t = (if IsZero t then [] else Format t RFC3339Nano)"

text \<open>\<open>fmt.Sprintf("%s/%s/%s", a, b, c)\<close> on three strings.\<close>

definition Sprintf3 :: "string \<Rightarrow> string \<Rightarrow> string \<Rightarrow> string" where
  "Sprintf3 a b c = a @ ''/'' @ b @ ''/'' @ c"

definition FormatSchedule ::
  "(Time \<Rightarrow> string \<Rightarrow> string) \<Rightarrow> Time \<Rightarrow> string \<Rightarrow> string \<Rightarrow> error + string" where
  "FormatSchedule Format startTime interval reps =
     (case validateInterval interval of
        Some err \<Rightarrow> Inl err
      | None \<Rightarrow>
         (case validateReps reps of
            Some err \<Rightarrow> Inl err
          | None \<Rightarrow> Inr (Sprintf3 reps (formatTimeString Format startTime) interval)))"

definition RunOnceNowSchedule :: string where
  "RunOnceNowSchedule = ''R1//PT2M''"

text \<open>
  The grammar of the specification for the repetitions field, \<open>R<digits-or-empty>\<close>: the
  letter R followed by zero or more decimal digits and nothing else.
\<close>

definition between :: "char \<Rightarrow> char \<Rightarrow> char \<Rightarrow> bool" where
  "between lo hi c = (lo \<le> c \<and> c \<le> hi)"

definition isDigit :: "char \<Rightarrow> bool" where
  "isDigit c = between (CHR ''0'') (CHR ''9'') c"

fun spec_reps_grammar :: "string \<Rightarrow> bool" where
  "spec_reps_grammar [] = False"
| "spec_reps_grammar (c # ds) = (c = CHR ''R'' \<and> list_all isDigit ds)"

text \<open>The zero instant and a sample instant with a fixed rendering, used in examples.\<close>

definition zeroTime :: Time where
  "zeroTime = \<lparr>sec = 0, nsec = 0, offset = 0\<rparr>"

definition sampleTime :: Time where
  "sampleTime = \<lparr>sec = 63808128000, nsec = 0, offset = 0\<rparr>"

definition sampleFormat :: "Time \<Rightarrow> string \<Rightarrow> string" where
  "sampleFormat t layout =
     (if t = sampleTime \<and> layout = RFC3339Nano then ''2023-01-01T00:00:00Z'' else ''?'')"

section \<open>Strings: white space\<close>

text \<open>
  A Go string is a sequence of bytes read as UTF-8. \<open>unicode.IsSpace\<close> holds for the
  code points U+0009..U+000D, U+0020, U+0085, U+00A0, U+1680, U+2000..U+200A, U+2028,
  U+2029, U+202F, U+205F and U+3000; \<open>spaceRunes\<close> lists their UTF-8 encodings.
\<close>

definition spaceRunes :: "string list" where
  "spaceRunes =
     [[CHR 0x09], [CHR 0x0A], [CHR 0x0B], [CHR 0x0C], [CHR 0x0D], [CHR 0x20],
      [CHR 0xC2, CHR 0x85], [CHR 0xC2, CHR 0xA0],
      [CHR 0xE1, CHR 0x9A, CHR 0x80],
      [CHR 0xE2, CHR 0x80, CHR 0x80], [CHR 0xE2, CHR 0x80, CHR 0x81],
      [CHR 0xE2, CHR 0x80, CHR 0x82], [CHR 0xE2, CHR 0x80, CHR 0x83],
      [CHR 0xE2, CHR 0x80, CHR 0x84], [CHR 0xE2, CHR 0x80, CHR 0x85],
      [CHR 0xE2, CHR 0x80, CHR 0x86], [CHR 0xE2, CHR 0x80, CHR 0x87],
      [CHR 0xE2, CHR 0x80, CHR 0x88], [CHR 0xE2, CHR 0x80, CHR 0x89],
      [CHR 0xE2, CHR 0x80, CHR 0x8A],
      [CHR 0xE2, CHR 0x80, CHR 0xA8], [CHR 0xE2, CHR 0x80, CHR 0xA9],
      [CHR 0xE2, CHR 0x80, CHR 0xAF],
      [CHR 0xE2, CHR 0x81, CHR 0x9F],
      [CHR 0xE3, CHR 0x80, CHR 0x80]]"

text \<open>
  \<open>trimRunes table s\<close> removes from the front of \<open>s\<close> every leading occurrence of an
  entry of \<open>table\<close>: the loop of \<open>strings.TrimLeftFunc\<close>, one decoded rune at a time.
\<close>

fun trimRunes :: "string list \<Rightarrow> string \<Rightarrow> string" where
  "trimRunes table [] = []"
| "trimRunes table (c # cs) =
     (case find (\<lambda>w. w \<noteq> [] \<and> HasPrefix (c # cs) w) table of
        None \<Rightarrow> c # cs
      | Some w \<Rightarrow> trimRunes table (drop (length w - 1) cs))"

definition TrimLeftSpace :: "string \<Rightarrow> string" where
  "TrimLeftSpace s = trimRunes spaceRunes s"

text \<open>
  \<open>strings.TrimRightFunc\<close> decodes backwards from the end; a white-space rune ends the
  string exactly when one of the encodings is a suffix of it.
\<close>

definition TrimRightSpace :: "string \<Rightarrow> string" where
  "TrimRightSpace s = rev (trimRunes (map rev spaceRunes) (rev s))"

definition TrimSpace :: "string \<Rightarrow> string" where
  "TrimSpace s = TrimRightSpace (TrimLeftSpace s)"

text \<open>
  The specification's notion of a blank name: empty, or white space only, that is, a
  sequence of white-space characters.
\<close>

definition spec_blank :: "string \<Rightarrow> bool" where
  "spec_blank s = (\<exists>ws. set ws \<subseteq> set spaceRunes \<and> concat ws = s)"

text \<open>The length of a UTF-8 encoding of \<open>spaceRunes\<close>, read off its first byte.\<close>

definition runeLen :: "char \<Rightarrow> nat" where
  "runeLen c = (if c < CHR 0x80 then 1 else if c = CHR 0xC2 then 2 else 3)"

section \<open>Paths: \<open>path.Clean\<close> and \<open>path.Join\<close>\<close>

text \<open>
  \<open>backtrack dotdot out w\<close> is the inner loop of \<open>Clean\<close> on a \<open>..\<close> element:
  \<open>for out.w > dotdot && out.index(out.w) != '/' { out.w-- }\<close>.
\<close>

fun backtrack :: "nat \<Rightarrow> string \<Rightarrow> nat \<Rightarrow> nat" where
  "backtrack dotdot out 0 = 0"
| "backtrack dotdot out (Suc w) =
     (if Suc w > dotdot \<and> out ! Suc w \<noteq> CHR ''/'' then backtrack dotdot out w else Suc w)"

text \<open>
  The main loop of \<open>Clean\<close>. The unread input \<open>path[r:]\<close> is the last argument, the
  output buffer \<open>out\<close> holds the \<open>out.w\<close> bytes written so far.
\<close>

function cleanLoop :: "bool \<Rightarrow> nat \<Rightarrow> string \<Rightarrow> string \<Rightarrow> string" where
  "cleanLoop rooted dotdot out [] = out"
| "cleanLoop rooted dotdot out (c # rest) =
     (if c = CHR ''/'' then cleanLoop rooted dotdot out rest
      else if c = CHR ''.'' \<and> (rest = [] \<or> hd rest = CHR ''/'') then
        cleanLoop rooted dotdot out rest
      else if c = CHR ''.'' \<and> hd rest = CHR ''.'' \<and> (tl rest = [] \<or> hd (tl rest) = CHR ''/'') then
        (if length out > dotdot then
           cleanLoop rooted dotdot (take (backtrack dotdot out (length out - 1)) out) (tl rest)
         else if \<not> rooted then
           (let out' = (if length out > 0 then out @ ''/'' else out) @ ''..''
            in cleanLoop rooted (length out') out' (tl rest))
         else cleanLoop rooted dotdot out (tl rest))
      else
        (let out' = (if rooted \<and> length out \<noteq> 1 \<or> \<not> rooted \<and> length out \<noteq> 0
                     then out @ ''/'' else out)
         in cleanLoop rooted dotdot
              (out' @ takeWhile (\<lambda>x. x \<noteq> CHR ''/'') (c # rest))
              (dropWhile (\<lambda>x. x \<noteq> CHR ''/'') (c # rest))))"
  by pat_completeness auto
termination
proof (relation "measure (\<lambda>(rooted, dotdot, out, rest). length rest)")
  show "wf (measure (\<lambda>(rooted, dotdot, out, rest). length rest))"
    by simp
next
  fix rooted :: bool and dotdot :: nat and out :: string and c :: char and rest :: string
  and x :: string
  assume "c \<noteq> CHR ''/''"
  then show "((rooted, dotdot, x @ takeWhile (\<lambda>x. x \<noteq> CHR ''/'') (c # rest),
               dropWhile (\<lambda>x. x \<noteq> CHR ''/'') (c # rest)),
              rooted, dotdot, out, c # rest)
             \<in> measure (\<lambda>(rooted, dotdot, out, rest). length rest)"
    using length_dropWhile_le [of "\<lambda>x. x \<noteq> CHR ''/''" rest] by simp
qed (auto simp: less_Suc_eq_le)

definition Clean :: "string \<Rightarrow> string" where
  "Clean path =
     (if path = [] then ''.''
      else
        (let rooted = (hd path = CHR ''/'');
             out = (if rooted then cleanLoop True 1 ''/'' (tl path)
                    else cleanLoop False 0 [] path)
         in if out = [] then ''.'' else out))"

fun joinBuf :: "string \<Rightarrow> string list \<Rightarrow> string" where
  "joinBuf buf [] = buf"
| "joinBuf buf (e # es) =
     joinBuf (if buf \<noteq> [] \<or> e \<noteq> []
              then (if buf \<noteq> [] then buf @ ''/'' else buf) @ e
              else buf) es"

definition Join :: "string list \<Rightarrow> string" where
  "Join elem = (if concat elem = [] then [] else Clean (joinBuf [] elem))"

section \<open>Query strings: \<open>url.Values\<close>, \<open>QueryEscape\<close>, \<open>ParseQuery\<close>\<close>

text \<open>
  \<open>url.Values\<close> is a \<open>map[string][]string\<close>: an association list with one entry per
  key. \<open>Add\<close> is \<open>v[key] = append(v[key], value)\<close>.
\<close>

type_synonym Values = "(string \<times> string list) list"

fun Add :: "Values \<Rightarrow> string \<Rightarrow> string \<Rightarrow> Values" where
  "Add [] key v = [(key, [v])]"
| "Add ((k, vs) # rest) key v =
     (if k = key then (k, vs @ [v]) # rest else (k, vs) # Add rest key v)"

definition isAlnum :: "char \<Rightarrow> bool" where
  "isAlnum c = (between (CHR ''a'') (CHR ''z'') c \<or> between (CHR ''A'') (CHR ''Z'') c
                \<or> between (CHR ''0'') (CHR ''9'') c)"

text \<open>\<open>shouldEscape(c, encodeQueryComponent)\<close>: only the unreserved bytes stay.\<close>

definition shouldEscape :: "char \<Rightarrow> bool" where
  "shouldEscape c = (\<not> isAlnum c \<and> c \<notin> set ''-_.~'')"

definition upperhex :: string where
  "upperhex = ''0123456789ABCDEF''"

fun QueryEscape :: "string \<Rightarrow> string" where
  "QueryEscape [] = []"
| "QueryEscape (c # cs) =
     (if shouldEscape c then
        (if c = CHR '' '' then CHR ''+'' # QueryEscape cs
         else CHR ''%'' # upperhex ! (of_char c div 16) # upperhex ! (of_char c mod 16)
                # QueryEscape cs)
      else c # QueryEscape cs)"

definition ishex :: "char \<Rightarrow> bool" where
  "ishex c = (between (CHR ''0'') (CHR ''9'') c \<or> between (CHR ''a'') (CHR ''f'') c
              \<or> between (CHR ''A'') (CHR ''F'') c)"

definition unhex :: "char \<Rightarrow> nat" where
  "unhex c =
     (if between (CHR ''0'') (CHR ''9'') c then of_char c - of_char (CHR ''0'')
      else if between (CHR ''a'') (CHR ''f'') c then of_char c - of_char (CHR ''a'') + 10
      else if between (CHR ''A'') (CHR ''F'') c then of_char c - of_char (CHR ''A'') + 10
      else 0)"

text \<open>\<open>QueryUnescape\<close>: \<open>None\<close> is the \<open>EscapeError\<close> of a malformed percent escape.\<close>

fun QueryUnescape :: "string \<Rightarrow> string option" where
  "QueryUnescape [] = Some []"
| "QueryUnescape (c # cs) =
     (if c = CHR ''%'' then
        (case cs of
           a # b # rest \<Rightarrow>
             (if ishex a \<and> ishex b
              then map_option ((#) (char_of (unhex a * 16 + unhex b))) (QueryUnescape rest)
              else None)
         | _ \<Rightarrow> None)
      else if c = CHR ''+'' then map_option ((#) CHR '' '') (QueryUnescape cs)
      else map_option ((#) c) (QueryUnescape cs))"

text \<open>\<open>strings.Cut(s, sep)\<close> for a one-byte separator: the text before and after its
  first occurrence (all of \<open>s\<close> and nothing when it does not occur).\<close>

definition Cut :: "string \<Rightarrow> char \<Rightarrow> string \<times> string" where
  "Cut s sep = (takeWhile (\<lambda>x. x \<noteq> sep) s, drop 1 (dropWhile (\<lambda>x. x \<noteq> sep) s))"

text \<open>
  One pair of \<open>parseQuery\<close> (as of Go 1.17): a piece with a semicolon, an empty piece
  and a piece whose key or value does not unescape are skipped. \<open>URL.Query\<close> drops the
  error that \<open>ParseQuery\<close> reports for them.
\<close>

definition parsePair :: "Values \<Rightarrow> string \<Rightarrow> Values" where
  "parsePair m piece =
     (if CHR '';'' \<in> set piece then m
      else if piece = [] then m
      else
        (case QueryUnescape (fst (Cut piece CHR ''='')) of
           None \<Rightarrow> m
         | Some key \<Rightarrow>
            (case QueryUnescape (snd (Cut piece CHR ''='')) of
               None \<Rightarrow> m
             | Some v \<Rightarrow> Add m key v)))"

function parseQuery :: "Values \<Rightarrow> string \<Rightarrow> Values" where
  "parseQuery m query =
     (if query = [] then m
      else parseQuery (parsePair m (fst (Cut query CHR ''&''))) (snd (Cut query CHR ''&'')))"
  by pat_completeness auto
termination
proof (relation "measure (\<lambda>(m, query). length query)")
  show "wf (measure (\<lambda>(m, query). length query))"
    by simp
next
  fix m :: Values and query :: string
  assume "query \<noteq> []"
  then show "((parsePair m (fst (Cut query CHR ''&'')), snd (Cut query CHR ''&'')), m, query)
             \<in> measure (\<lambda>(m, query). length query)"
    using length_dropWhile_le [of "\<lambda>x. x \<noteq> CHR ''&''" query]
    by (cases query) (auto simp: Cut_def)
qed

declare parseQuery.simps [simp del]

text \<open>\<open>Values.Encode\<close>: keys in sorted order, every value of a key in turn.\<close>

fun encodeValues :: "string \<Rightarrow> string \<Rightarrow> string list \<Rightarrow> string" where
  "encodeValues buf keyEscaped [] = buf"
| "encodeValues buf keyEscaped (v # vs) =
     encodeValues ((if length buf > 0 then buf @ ''&'' else buf)
                     @ keyEscaped @ ''='' @ QueryEscape v) keyEscaped vs"

definition valuesOf :: "Values \<Rightarrow> string \<Rightarrow> string list" where
  "valuesOf v k = (case map_of v k of None \<Rightarrow> [] | Some vs \<Rightarrow> vs)"

definition Encode :: "Values \<Rightarrow> string" where
  "Encode v =
     (if length v = 0 then []
      else foldl (\<lambda>buf k. encodeValues buf (QueryEscape k) (valuesOf v k)) []
             (sort (map fst v)))"

section \<open>The client\<close>

text \<open>
  The fields of \<open>url.URL\<close> that the client reads or writes. The other fields of a URL
  (user, fragment, opaque part) are never touched by it.
\<close>

record URL =
  Scheme :: string
  Host :: string
  Path :: string
  RawQuery :: string

definition Query :: "URL \<Rightarrow> Values" where
  "Query u = parseQuery [] (RawQuery u)"

record BasicAuth =
  Username :: string
  Password :: string

text \<open>\<open>http.Client\<close>: its \<open>Timeout\<close>, a \<open>time.Duration\<close> (signed 64-bit nanoseconds).\<close>

record HTTPClient =
  Timeout :: int

definition Seconds :: "int \<Rightarrow> int" where
  "Seconds n = sint ((word_of_int n :: 64 word) * 1000000000)"

text \<open>The unexported field \<open>http\<close> is a pointer, nil until \<open>Init\<close> sets it.\<close>

record Chronos =
  URL :: URL
  http :: "HTTPClient option"
  Debug :: bool
  RequestTimeout :: int
  APIPrefix :: string
  BasicAuth :: BasicAuth

definition DefaultChronos :: Chronos where
  "DefaultChronos =
     \<lparr>URL = \<lparr>Scheme = ''http'', Host = ''127.0.0.1:4400'', Path = [], RawQuery = []\<rparr>,
      http = None, Debug = False, RequestTimeout = 5, APIPrefix = [],
      BasicAuth = \<lparr>Username = [], Password = []\<rparr>\<rparr>"

definition HTTPGet :: string where "HTTPGet = ''GET''"
definition HTTPPut :: string where "HTTPPut = ''PUT''"
definition HTTPDelete :: string where "HTTPDelete = ''DELETE''"
definition HTTPPost :: string where "HTTPPost = ''POST''"

definition ChronosAPIJob :: string where "ChronosAPIJob = ''scheduler/job''"
definition ChronosAPIJobs :: string where "ChronosAPIJobs = ''scheduler/jobs''"
definition ChronosAPIJobsSearch :: string where "ChronosAPIJobsSearch = ''scheduler/jobs/search''"
definition ChronosAPIKillJobTask :: string where "ChronosAPIKillJobTask = ''scheduler/task/kill''"
definition ChronosAPIAddScheduledJob :: string where "ChronosAPIAddScheduledJob = ''scheduler/iso8601''"
definition ChronosAPIAddDependentJob :: string where "ChronosAPIAddDependentJob = ''scheduler/dependency''"

section \<open>Domain model\<close>

text \<open>
  A \<open>map[string]string\<close> is an association list, a \<open>float32\<close> its 32-bit pattern: the
  client only carries these values.
\<close>

type_synonym float32 = "32 word"

record Container =
  Type :: string
  Image :: string
  Network :: string
  Volumes :: "(string \<times> string) list list"
  Parameters :: "(string \<times> string) list list"

record Job =
  Name :: string
  Command :: string
  Shell :: bool
  Epsilon :: string
  Executor :: string
  ExecutorFlags :: string
  Retries :: int
  Owner :: string
  OwnerName :: string
  Description :: string
  Async :: bool
  SuccessCount :: int
  ErrorCount :: int
  LastSuccess :: string
  LastError :: string
  CPUs :: float32
  Disk :: float32
  Mem :: float32
  Disabled :: bool
  SoftError :: bool
  DataProcessingJobType :: bool
  ErrorsSinceLastSuccess :: int
  URIs :: "string list"
  EnvironmentVariables :: "(string \<times> string) list list"
  Arguments :: "string list"
  HighPriority :: bool
  RunAsUser :: string
  Container :: "Container option"
  Schedule :: string
  ScheduleTimeZone :: string
  Constraints :: "string list list"
  Parents :: "string list"

type_synonym Jobs = "Job list"

section \<open>Requests, responses and the outside world\<close>

text \<open>
  An \<open>http.Request\<close> as the client builds it. \<open>http.NewRequest\<close> is given
  \<open>client.URL.String()\<close>, the rendering of the client's URL at that moment; the request
  keeps that URL value. \<open>SetBasicAuth\<close> fills \<open>Auth\<close>.
\<close>

record Request =
  Method :: string
  Target :: URL
  ReqBody :: string
  Header :: "(string \<times> string) list"
  Auth :: "(string \<times> string) option"

text \<open>
  The fields of \<open>http.Response\<close> that the client reads. \<open>ContentLength\<close> is \<open>-1\<close> when the
  length is unknown (a chunked body, for one).
\<close>

record Response =
  StatusCode :: int
  Status :: string
  ContentLength :: int
  Body :: string

text \<open>
  The result slot of a call is an \<open>interface{}\<close>: the facade passes either nil or a
  pointer to a \<open>Jobs\<close> value.
\<close>

datatype Slot = NilSlot | JobsSlot Jobs

text \<open>
  The standard library and the network, as far as the client consumes them. An error
  of theirs is given by its text.
  \<^item> \<open>json_Marshal\<close>: \<open>json.Marshal\<close> of a job, an error text or the JSON text;
  \<^item> \<open>json_Decode_nil\<close>: the error text of \<open>Decode(nil)\<close> on a body (decoding into nil
    always fails);
  \<^item> \<open>json_Decode_Jobs\<close>: \<open>Decode\<close> of a body into a \<open>Jobs\<close> value, giving the error
    text, if any, and the value left in the slot;
  \<^item> \<open>http_NewRequest_error\<close>: the error text of \<open>http.NewRequest\<close> for a method and a
    target, if any;
  \<^item> \<open>http_Do\<close>: the round trip of \<open>http.Client.Do\<close>, an error text or the response; it
    may depend on the requests sent before.
\<close>

record Env =
  json_Marshal :: "Job \<Rightarrow> string + string"
  json_Decode_nil :: "string \<Rightarrow> string"
  json_Decode_Jobs :: "string \<Rightarrow> Jobs \<Rightarrow> string option \<times> Jobs"
  http_NewRequest_error :: "string \<Rightarrow> URL \<Rightarrow> string option"
  http_Do :: "HTTPClient \<Rightarrow> Request list \<Rightarrow> Request \<Rightarrow> string + Response"

text \<open>
  The state that the operations change: the client object and the list of requests
  handed to \<open>http.Client.Do\<close> so far, oldest first.
\<close>

record State =
  client :: Chronos
  wire :: "Request list"

text \<open>A call either returns or panics (a nil pointer dereference).\<close>

datatype 'a outcome = Panic string | Return 'a

section \<open>Request builder and executor\<close>

text \<open>
  \<open>queryParams\<close> is a \<open>map[string]string\<close>, given here as the list of its entries. The
  loop of \<open>buildURL\<close> visits them in some order; the keys of a map are distinct and
  \<open>Encode\<close> sorts by key, so the order does not show in the result
  (\<open>buildURL_order_irrelevant\<close> below).
\<close>

definition buildURL :: "Chronos \<Rightarrow> string \<Rightarrow> (string \<times> string) list \<Rightarrow> Chronos" where
  "buildURL c uri queryParams =
     (let query = foldl (\<lambda>q (k, v). Add q k v) (Query (URL c)) queryParams;
          u1 = (URL c)\<lparr>RawQuery := Encode query\<rparr>;
          u2 = u1\<lparr>Path := Join [APIPrefix c, uri]\<rparr>
      in c\<lparr>URL := u2\<rparr>)"

definition applyRequestHeaders :: "Chronos \<Rightarrow> Request \<Rightarrow> Request" where
  "applyRequestHeaders c request =
     request\<lparr>Header := Header request @ [(''Content-Type'', ''application/json'')]
                                       @ [(''Accept'', ''application/json'')],
             Auth := Some (Username (BasicAuth c), Password (BasicAuth c))\<rparr>"

definition http_NewRequest :: "Env \<Rightarrow> string \<Rightarrow> URL \<Rightarrow> string \<Rightarrow> error + Request" where
  "http_NewRequest env method u body =
     (case http_NewRequest_error env method u of
        Some msg \<Rightarrow> Inl (RequestError msg)
      | None \<Rightarrow> Inr \<lparr>Method = method, Target = u, ReqBody = body, Header = [], Auth = None\<rparr>)"

definition newRequest :: "Env \<Rightarrow> Chronos \<Rightarrow> string \<Rightarrow> string \<Rightarrow> error + Request" where
  "newRequest env c method body =
     (case http_NewRequest env method (URL c) body of
        Inl err \<Rightarrow> Inl err
      | Inr request \<Rightarrow> Inr (applyRequestHeaders c request))"

text \<open>The request that \<open>newRequest\<close> hands back when \<open>http.NewRequest\<close> accepts.\<close>

definition builtRequest :: "Chronos \<Rightarrow> string \<Rightarrow> string \<Rightarrow> Request" where
  "builtRequest c method body =
     applyRequestHeaders c
       \<lparr>Method = method, Target = URL c, ReqBody = body, Header = [], Auth = None\<rparr>"

text \<open>
  \<open>httpCall\<close> returns \<open>(0, nil, err)\<close> or \<open>(response.StatusCode, response, nil)\<close>: an error
  or a status with its response. \<open>client.http.Do\<close> on a nil \<open>client.http\<close> panics.
\<close>

definition httpCall ::
  "Env \<Rightarrow> string \<Rightarrow> string \<Rightarrow> State \<Rightarrow> ((error + int \<times> Response) \<times> State) outcome" where
  "httpCall env method body st =
     (case newRequest env (client st) method body of
        Inl err \<Rightarrow> Return (Inl err, st)
      | Inr request \<Rightarrow>
         (case http (client st) of
            None \<Rightarrow> Panic ''invalid memory address or nil pointer dereference''
          | Some hc \<Rightarrow>
             (case http_Do env hc (wire st) request of
                Inl msg \<Rightarrow> Return (Inl (TransportError msg), st\<lparr>wire := wire st @ [request]\<rparr>)
              | Inr response \<Rightarrow>
                  Return (Inr (StatusCode response, response),
                          st\<lparr>wire := wire st @ [request]\<rparr>))))"

text \<open>\<open>json.NewDecoder(response.Body).Decode(result)\<close>.\<close>

definition Decode :: "Env \<Rightarrow> string \<Rightarrow> Slot \<Rightarrow> error option \<times> Slot" where
  "Decode env body result =
     (case result of
        NilSlot \<Rightarrow> (Some (DecodeError (json_Decode_nil env body)), NilSlot)
      | JobsSlot jobs \<Rightarrow>
          (case json_Decode_Jobs env body jobs of
             (msg, jobs') \<Rightarrow> (map_option DecodeError msg, JobsSlot jobs')))"

text \<open>
  \<open>apiCall\<close> returns the status, the error (if any), what the result slot holds
  afterwards, and the new state.
\<close>

definition apiCall ::
  "Env \<Rightarrow> string \<Rightarrow> string \<Rightarrow> (string \<times> string) list \<Rightarrow> string \<Rightarrow> Slot \<Rightarrow> State
     \<Rightarrow> ((int \<times> error option) \<times> Slot \<times> State) outcome" where
  "apiCall env method uri queryParams body result st =
     (let st1 = st\<lparr>client := buildURL (client st) uri queryParams\<rparr>
      in case httpCall env method body st1 of
           Panic msg \<Rightarrow> Panic msg
         | Return (Inl err, st2) \<Rightarrow> Return ((0, Some err), result, st2)
         | Return (Inr (status, response), st2) \<Rightarrow>
            (let (err, result') =
                   (if ContentLength response \<noteq> 0 then Decode env (Body response) result
                    else (None, result))
             in case err of
                  Some e \<Rightarrow> Return ((status, Some e), result', st2)
                | None \<Rightarrow>
                   (if status < 200 \<or> status > 299
                    then Return ((status, Some (ErrorsNew (Status response))), result', st2)
                    else Return ((status, None), result', st2))))"

text \<open>The wrappers drop the status: \<open>_, err := client.apiCall(...); return err\<close>.\<close>

definition dropStatus ::
  "((int \<times> error option) \<times> Slot \<times> State) outcome \<Rightarrow> (error option \<times> Slot \<times> State) outcome" where
  "dropStatus r =
     (case r of Panic msg \<Rightarrow> Panic msg
      | Return ((status, err), result, st) \<Rightarrow> Return (err, result, st))"

definition apiGet ::
  "Env \<Rightarrow> string \<Rightarrow> (string \<times> string) list \<Rightarrow> Slot \<Rightarrow> State
     \<Rightarrow> (error option \<times> Slot \<times> State) outcome" where
  "apiGet env uri queryParams result st =
     dropStatus (apiCall env HTTPGet uri queryParams [] result st)"

definition apiDelete ::
  "Env \<Rightarrow> string \<Rightarrow> (string \<times> string) list \<Rightarrow> Slot \<Rightarrow> State
     \<Rightarrow> (error option \<times> Slot \<times> State) outcome" where
  "apiDelete env uri queryParams result st =
     dropStatus (apiCall env HTTPDelete uri queryParams [] result st)"

definition apiPut ::
  "Env \<Rightarrow> string \<Rightarrow> (string \<times> string) list \<Rightarrow> Slot \<Rightarrow> State
     \<Rightarrow> (error option \<times> Slot \<times> State) outcome" where
  "apiPut env uri queryParams result st =
     dropStatus (apiCall env HTTPPut uri queryParams [] result st)"

definition apiPost ::
  "Env \<Rightarrow> string \<Rightarrow> (string \<times> string) list \<Rightarrow> Job \<Rightarrow> Slot \<Rightarrow> State
     \<Rightarrow> (error option \<times> Slot \<times> State) outcome" where
  "apiPost env uri queryParams postData result st =
     (case json_Marshal env postData of
        Inl msg \<Rightarrow> Return (Some (MarshalError msg), result, st)
      | Inr postDataString \<Rightarrow>
          dropStatus (apiCall env HTTPPost uri queryParams postDataString result st))"

text \<open>
  What \<open>net/http\<close> promises about the two body fields of a response: when the declared
  length is zero there are no bytes to read. (A declared length of \<open>-1\<close> says nothing
  about the body.)
\<close>

definition lengthConsistent :: "Response \<Rightarrow> bool" where
  "lengthConsistent r = (ContentLength r = 0 \<longrightarrow> Body r = [])"

text \<open>What a call returned, when it did not panic.\<close>

fun returned :: "'a outcome \<Rightarrow> 'a option" where
  "returned (Return x) = Some x"
| "returned (Panic msg) = None"

section \<open>Operation facade\<close>

text \<open>
  \<open>jobs := new(Jobs)\<close> is a fresh slot holding the nil slice; \<open>*jobs\<close> reads it back
  after the call. The slot handed out is a \<open>JobsSlot\<close> and \<open>Decode\<close> keeps it one.
\<close>

fun derefJobs :: "Slot \<Rightarrow> Jobs" where
  "derefJobs (JobsSlot jobs) = jobs"
| "derefJobs NilSlot = []"

text \<open>\<open>if err != nil { return nil, err }; return *jobs, nil\<close>.\<close>

definition returnJobs ::
  "(error option \<times> Slot \<times> State) outcome \<Rightarrow> ((error + Jobs) \<times> State) outcome" where
  "returnJobs r =
     (case r of Panic msg \<Rightarrow> Panic msg
      | Return (Some err, jobs, st) \<Rightarrow> Return (Inl err, st)
      | Return (None, jobs, st) \<Rightarrow> Return (Inr (derefJobs jobs), st))"

text \<open>\<open>return client.apiDelete(..., nil)\<close>: the error alone.\<close>

definition returnErr ::
  "(error option \<times> Slot \<times> State) outcome \<Rightarrow> (error option \<times> State) outcome" where
  "returnErr r =
     (case r of Panic msg \<Rightarrow> Panic msg
      | Return (err, result, st) \<Rightarrow> Return (err, st))"

definition Jobs :: "Env \<Rightarrow> State \<Rightarrow> ((error + Jobs) \<times> State) outcome" where
  "Jobs env st = returnJobs (apiGet env ChronosAPIJobs [] (JobsSlot []) st)"

definition SearchJobs :: "Env \<Rightarrow> string \<Rightarrow> State \<Rightarrow> ((error + Jobs) \<times> State) outcome" where
  "SearchJobs env name st =
     (if length (TrimSpace name) = 0
      then Return (Inl (ErrorsNew ''[SearchJobs] missing name argument''), st)
      else returnJobs (apiGet env ChronosAPIJobsSearch [(''name'', name)] (JobsSlot []) st))"

text \<open>
  The operations on a \<open>*Job\<close> return, next to the error, the caller's job as the
  operation leaves it.
\<close>

definition withJob ::
  "Job \<Rightarrow> (error option \<times> State) outcome \<Rightarrow> (error option \<times> Job \<times> State) outcome" where
  "withJob job r =
     (case r of Panic msg \<Rightarrow> Panic msg | Return (err, st) \<Rightarrow> Return (err, job, st))"

definition UnscheduleJob :: "Env \<Rightarrow> Job \<Rightarrow> State \<Rightarrow> (error option \<times> Job \<times> State) outcome" where
  "UnscheduleJob env job st =
     (let job1 = job\<lparr>Schedule := ''R0//PT0M''\<rparr>
      in withJob job1 (returnErr (apiPost env ChronosAPIAddScheduledJob [] job1 NilSlot st)))"

definition DeleteJob :: "Env \<Rightarrow> string \<Rightarrow> State \<Rightarrow> (error option \<times> State) outcome" where
  "DeleteJob env name st = returnErr (apiDelete env (Join [ChronosAPIJob, name]) [] NilSlot st)"

definition DeleteJobTasks :: "Env \<Rightarrow> string \<Rightarrow> State \<Rightarrow> (error option \<times> State) outcome" where
  "DeleteJobTasks env name st =
     returnErr (apiDelete env (Join [ChronosAPIKillJobTask, name]) [] NilSlot st)"

definition StartJob ::
  "Env \<Rightarrow> string \<Rightarrow> (string \<times> string) list \<Rightarrow> State \<Rightarrow> (error option \<times> State) outcome" where
  "StartJob env name args st = returnErr (apiPut env (Join [ChronosAPIJob, name]) args NilSlot st)"

definition AddScheduledJob :: "Env \<Rightarrow> Job \<Rightarrow> State \<Rightarrow> (error option \<times> Job \<times> State) outcome" where
  "AddScheduledJob env job st =
     withJob job (returnErr (apiPost env ChronosAPIAddScheduledJob [] job NilSlot st))"

definition AddDependentJob :: "Env \<Rightarrow> Job \<Rightarrow> State \<Rightarrow> (error option \<times> Job \<times> State) outcome" where
  "AddDependentJob env job st =
     withJob job (returnErr (apiPost env ChronosAPIAddDependentJob [] job NilSlot st))"

definition RunOnceNowJob :: "Env \<Rightarrow> Job \<Rightarrow> State \<Rightarrow> (error option \<times> Job \<times> State) outcome" where
  "RunOnceNowJob env job st =
     (let job1 = job\<lparr>Schedule := RunOnceNowSchedule\<rparr>;
          job2 = job1\<lparr>Epsilon := ''PT10M''\<rparr>
      in AddScheduledJob env job2 st)"

definition Init :: "Env \<Rightarrow> State \<Rightarrow> (error option \<times> State) outcome" where
  "Init env st =
     (let c = (client st)\<lparr>http := Some \<lparr>Timeout = Seconds (RequestTimeout (client st))\<rparr>\<rparr>
      in case Jobs env (st\<lparr>client := c\<rparr>) of
           Panic msg \<Rightarrow> Panic msg
         | Return (Inl err, st') \<Rightarrow>
             Return (Some (ErrorsNew (''Could not reach chronos cluster: '' @ Error err)), st')
         | Return (Inr jobs, st') \<Rightarrow> Return (None, st'))"

section \<open>Sample clients, jobs and servers\<close>

definition initialised :: "Chronos \<Rightarrow> Chronos" where
  "initialised c = c\<lparr>http := Some \<lparr>Timeout = Seconds (RequestTimeout c)\<rparr>\<rparr>"

definition freshState :: State where
  "freshState = \<lparr>client = DefaultChronos, wire = []\<rparr>"

definition readyState :: State where
  "readyState = \<lparr>client = initialised DefaultChronos, wire = []\<rparr>"

definition sampleJob :: Job where
  "sampleJob =
     \<lparr>Name = ''nightly'', Command = ''make report'', Shell = True, Epsilon = ''PT30M'',
      Executor = [], ExecutorFlags = [], Retries = 2, Owner = ''ops@example.com'',
      OwnerName = [], Description = [], Async = False, SuccessCount = 0, ErrorCount = 0,
      LastSuccess = [], LastError = [], CPUs = 0, Disk = 0, Mem = 0, Disabled = False,
      SoftError = False, DataProcessingJobType = False, ErrorsSinceLastSuccess = 0,
      URIs = [], EnvironmentVariables = [], Arguments = [], HighPriority = False,
      RunAsUser = [], Container = None, Schedule = ''R/2023-01-01T00:00:00Z/P1D'',
      ScheduleTimeZone = [], Constraints = [], Parents = []\<rparr>"

text \<open>
  A stand-in for \<open>json.Marshal\<close> that writes three of the fields, and a stand-in for the
  decoder that knows the empty stream (\<open>io.EOF\<close>), the empty array and nothing else.
\<close>

definition sampleMarshal :: "Job \<Rightarrow> string + string" where
  "sampleMarshal job =
     Inr (''{name:'' @ Name job @ '',epsilon:'' @ Epsilon job
            @ '',schedule:'' @ Schedule job @ ''}'')"

definition sampleDecodeJobs :: "string \<Rightarrow> Jobs \<Rightarrow> string option \<times> Jobs" where
  "sampleDecodeJobs body jobs =
     (if body = [] then (Some ''EOF'', jobs)
      else if body = ''[]'' then (None, [])
      else (Some ''invalid character'', jobs))"

text \<open>A server that gives the same answer to every request.\<close>

definition server :: "(string + Response) \<Rightarrow> Env" where
  "server answer =
     \<lparr>json_Marshal = sampleMarshal,
      json_Decode_nil = (\<lambda>body. ''json: Unmarshal(nil)''),
      json_Decode_Jobs = sampleDecodeJobs,
      http_NewRequest_error = (\<lambda>method u. None),
      http_Do = (\<lambda>hc sent request. answer)\<rparr>"

definition response :: "int \<Rightarrow> string \<Rightarrow> int \<Rightarrow> string \<Rightarrow> Response" where
  "response code status len body =
     \<lparr>StatusCode = code, Status = status, ContentLength = len, Body = body\<rparr>"

definition okServer :: Env where
  "okServer = server (Inr (response 200 ''200 OK'' 2 ''[]''))"

text \<open>
  The state a call leaves behind. After a panic nothing is observed; \<open>stateAfter\<close> then
  gives the state before the call.
\<close>

fun stateAfter :: "State \<Rightarrow> ('a \<times> State) outcome \<Rightarrow> State" where
  "stateAfter st (Return (x, st')) = st'"
| "stateAfter st (Panic msg) = st"

section \<open>The operations as values\<close>

text \<open>
  One constructor for each method of the interface \<open>Chronoser\<close>, with its arguments, so
  that a statement can range over every operation. \<open>perform\<close> runs one and keeps the
  state it leaves (nothing after a panic).
\<close>

datatype Operation =
    OpJobs
  | OpDeleteJob string
  | OpDeleteJobTasks string
  | OpStartJob string "(string \<times> string) list"
  | OpAddScheduledJob Job
  | OpAddDependentJob Job
  | OpRunOnceNowJob Job
  | OpUnscheduleJob Job
  | OpSearchJobs string

fun perform :: "Env \<Rightarrow> Operation \<Rightarrow> State \<Rightarrow> State option" where
  "perform env OpJobs st = map_option snd (returned (Jobs env st))"
| "perform env (OpDeleteJob name) st = map_option snd (returned (DeleteJob env name st))"
| "perform env (OpDeleteJobTasks name) st = map_option snd (returned (DeleteJobTasks env name st))"
| "perform env (OpStartJob name args) st = map_option snd (returned (StartJob env name args st))"
| "perform env (OpAddScheduledJob job) st =
     map_option (snd \<circ> snd) (returned (AddScheduledJob env job st))"
| "perform env (OpAddDependentJob job) st =
     map_option (snd \<circ> snd) (returned (AddDependentJob env job st))"
| "perform env (OpRunOnceNowJob job) st =
     map_option (snd \<circ> snd) (returned (RunOnceNowJob env job st))"
| "perform env (OpUnscheduleJob job) st =
     map_option (snd \<circ> snd) (returned (UnscheduleJob env job st))"
| "perform env (OpSearchJobs name) st = map_option snd (returned (SearchJobs env name st))"

text \<open>
  The configuration of a client: everything but the path and the query of its URL.
\<close>

definition sameConfig :: "Chronos \<Rightarrow> Chronos \<Rightarrow> bool" where
  "sameConfig c c' =
     (APIPrefix c' = APIPrefix c \<and> RequestTimeout c' = RequestTimeout c
      \<and> BasicAuth c' = BasicAuth c \<and> http c' = http c \<and> Debug c' = Debug c
      \<and> Scheme (URL c') = Scheme (URL c) \<and> Host (URL c') = Host (URL c))"

section \<open>Properties of the schedule formatter\<close>

lemma HasPrefix_single: "HasPrefix s [c] = (\<exists>rest. s = c # rest)"
  by (cases s) (auto simp: HasPrefix_def)

lemma spec_reps_grammar_HasPrefix: "spec_reps_grammar reps \<Longrightarrow> HasPrefix reps ''R''"
  by (cases reps) (auto simp: HasPrefix_def)

lemma validateReps_None: "validateReps reps = None \<longleftrightarrow> HasPrefix reps ''R''"
  by (simp add: validateReps_def)

lemma validateInterval_None: "validateInterval interval = None \<longleftrightarrow> HasPrefix interval ''P''"
  by (simp add: validateInterval_def)

text \<open>
  C2 (as stated, refuted). The claim says that \<open>FormatSchedule\<close> fails exactly when the
  repetitions do not match \<open>R<digits-or-empty>\<close> or the interval does not begin with P.
  The repetitions \<open>Rx\<close> do not match the grammar, and the call succeeds.
\<close>

theorem FormatSchedule_reps_grammar_counterexample:
  "\<not> spec_reps_grammar ''Rx''
   \<and> FormatSchedule sampleFormat zeroTime ''PT2M'' ''Rx'' = Inr ''Rx//PT2M''"
  by (simp add: FormatSchedule_def validateInterval_def validateReps_def HasPrefix_def
      Sprintf3_def formatTimeString_def IsZero_def zeroTime_def isDigit_def between_def)

text \<open>
  C2 (amended). \<open>FormatSchedule\<close> fails exactly when the repetitions do not begin with R
  or the interval does not begin with P, and the failure is one of the two validation
  errors; in particular it succeeds for every repetitions string of the grammar
  \<open>R<digits-or-empty>\<close> and every interval beginning with P, whatever the start time.
\<close>

theorem FormatSchedule_fails_iff_prefix:
  "((\<exists>err. FormatSchedule Format startTime interval reps = Inl err)
      \<longleftrightarrow> (\<not> HasPrefix reps ''R'' \<or> \<not> HasPrefix interval ''P''))
   \<and> (\<forall>err. FormatSchedule Format startTime interval reps = Inl err \<longrightarrow>
          err = ErrorsNew ''Interval string not formatted correctly''
          \<or> err = ErrorsNew ''Repetitions string not formatted correctly'')
   \<and> (spec_reps_grammar reps \<and> HasPrefix interval ''P'' \<longrightarrow>
          (\<exists>schedule. FormatSchedule Format startTime interval reps = Inr schedule))"
proof (intro conjI)
  show "(\<exists>err. FormatSchedule Format startTime interval reps = Inl err)
          \<longleftrightarrow> (\<not> HasPrefix reps ''R'' \<or> \<not> HasPrefix interval ''P'')"
    by (auto simp: FormatSchedule_def validateInterval_def validateReps_def)
  show "\<forall>err. FormatSchedule Format startTime interval reps = Inl err \<longrightarrow>
          err = ErrorsNew ''Interval string not formatted correctly''
          \<or> err = ErrorsNew ''Repetitions string not formatted correctly''"
    by (auto simp: FormatSchedule_def validateInterval_def validateReps_def split: if_splits)
  show "spec_reps_grammar reps \<and> HasPrefix interval ''P'' \<longrightarrow>
          (\<exists>schedule. FormatSchedule Format startTime interval reps = Inr schedule)"
    using spec_reps_grammar_HasPrefix [of reps]
    by (auto simp: FormatSchedule_def validateInterval_def validateReps_def)
qed

theorem FormatSchedule_fails_iff_prefix_witness:
  "spec_reps_grammar ''R5'' \<and> HasPrefix ''PT1H'' ''P''
   \<and> (\<exists>schedule. FormatSchedule sampleFormat sampleTime ''PT1H'' ''R5'' = Inr schedule)
   \<and> \<not> HasPrefix ''5'' ''R''
   \<and> (\<exists>err. FormatSchedule sampleFormat sampleTime ''PT1H'' ''5'' = Inl err)"
proof -
  have g: "spec_reps_grammar ''R5'' \<and> HasPrefix ''PT1H'' ''P''"
    by (simp add: HasPrefix_def isDigit_def between_def)
  have n: "\<not> HasPrefix ''5'' ''R''"
    by (simp add: HasPrefix_def)
  show ?thesis
    using g n FormatSchedule_fails_iff_prefix [of sampleFormat sampleTime "''PT1H''" "''R5''"]
      FormatSchedule_fails_iff_prefix [of sampleFormat sampleTime "''PT1H''" "''5''"]
    by blast
qed

text \<open>
  C3. For every repetitions string and interval accepted by the validation,
  \<open>FormatSchedule\<close> returns \<open>reps + "/" + renderedStart + "/" + interval\<close>, where
  \<open>renderedStart\<close> is empty for the zero instant and otherwise the rendering of the start
  time with the layout \<open>RFC3339Nano\<close> (RFC 3339 with fractional seconds down to the
  nanosecond and the UTC offset).
\<close>

theorem FormatSchedule_output:
  assumes "validateInterval interval = None" and "validateReps reps = None"
  shows "FormatSchedule Format startTime interval reps =
           Inr (reps @ ''/''
                  @ (if IsZero startTime then [] else Format startTime RFC3339Nano)
                  @ ''/'' @ interval)"
  using assms by (simp add: FormatSchedule_def Sprintf3_def formatTimeString_def)

theorem FormatSchedule_output_witness:
  "validateInterval ''PT1H'' = None \<and> validateReps ''R5'' = None
   \<and> FormatSchedule sampleFormat sampleTime ''PT1H'' ''R5'' = Inr ''R5/2023-01-01T00:00:00Z/PT1H''
   \<and> FormatSchedule sampleFormat zeroTime ''PT1H'' ''R5'' = Inr ''R5//PT1H''"
proof -
  have i: "validateInterval ''PT1H'' = None"
    by (simp add: validateInterval_def HasPrefix_def)
  have r: "validateReps ''R5'' = None"
    by (simp add: validateReps_def HasPrefix_def)
  have nz: "\<not> IsZero sampleTime" and z: "IsZero zeroTime"
    by (simp_all add: IsZero_def sampleTime_def zeroTime_def)
  show ?thesis
    using i r nz z FormatSchedule_output [OF i r, of sampleFormat sampleTime]
      FormatSchedule_output [OF i r, of sampleFormat zeroTime]
    by (simp add: sampleFormat_def)
qed

section \<open>Properties of the request executor\<close>

lemma httpCall_status:
  assumes "httpCall env method body st = Return (Inr (status, r), st')"
  shows "status = StatusCode r"
  using assms by (auto simp: httpCall_def split: sum.splits option.splits)

lemma apiCall_after_round_trip:
  assumes "httpCall env method body (st\<lparr>client := buildURL (client st) uri queryParams\<rparr>)
             = Return (Inr (status, r), st')"
  shows "apiCall env method uri queryParams body result st =
           (if ContentLength r \<noteq> 0 then
              (case Decode env (Body r) result of
                 (Some e, result') \<Rightarrow> Return ((status, Some e), result', st')
               | (None, result') \<Rightarrow>
                   (if status < 200 \<or> status > 299
                    then Return ((status, Some (ErrorsNew (Status r))), result', st')
                    else Return ((status, None), result', st')))
            else (if status < 200 \<or> status > 299
                  then Return ((status, Some (ErrorsNew (Status r))), result, st')
                  else Return ((status, None), result, st')))"
  using assms by (simp add: apiCall_def Let_def split: prod.splits option.splits)

lemma Decode_error_kind:
  assumes "Decode env body result = (Some err, result')"
  shows "\<exists>msg. err = DecodeError msg"
  using assms by (auto simp: Decode_def split: Slot.splits prod.splits)

text \<open>On an initialised client, a round trip with a server that answers.\<close>

lemma httpCall_server:
  assumes "http (client st) = Some hc"
  shows "httpCall (server (Inr r)) method body st =
           Return (Inr (StatusCode r, r),
                   st\<lparr>wire := wire st @ [applyRequestHeaders (client st)
                          \<lparr>Method = method, Target = URL (client st), ReqBody = body,
                           Header = [], Auth = None\<rparr>]\<rparr>)"
  using assms by (simp add: httpCall_def newRequest_def http_NewRequest_def server_def)

lemma http_buildURL [simp]: "http (buildURL c uri queryParams) = http c"
  by (simp add: buildURL_def Let_def)

lemma httpCall_server_ready:
  "\<exists>st'. httpCall (server (Inr r)) method body
            (readyState\<lparr>client := buildURL (client readyState) uri queryParams\<rparr>)
          = Return (Inr (StatusCode r, r), st')"
  by (simp add: httpCall_server readyState_def initialised_def)

text \<open>
  C4. When a request was executed and its response carries a non-empty body, the body
  is decoded into the caller's result slot before the status is looked at: a decoding
  failure is the error of the call whatever the status, also a status in [200,299]; and
  when the body decodes, the slot holds the decoded value also when the status is
  outside [200,299] and the call fails with the service error (the status line).
\<close>

theorem apiCall_decodes_before_status:
  assumes "httpCall env method body (st\<lparr>client := buildURL (client st) uri queryParams\<rparr>)
             = Return (Inr (status, r), st')"
    and "Body r \<noteq> []" and "lengthConsistent r"
  shows "(\<forall>err result'. Decode env (Body r) result = (Some err, result') \<longrightarrow>
            apiCall env method uri queryParams body result st
              = Return ((status, Some err), result', st'))
       \<and> (\<forall>result'. Decode env (Body r) result = (None, result')
                      \<and> (status < 200 \<or> status > 299) \<longrightarrow>
            apiCall env method uri queryParams body result st
              = Return ((status, Some (ErrorsNew (Status r))), result', st'))
       \<and> (\<forall>result'. Decode env (Body r) result = (None, result')
                      \<and> 200 \<le> status \<and> status \<le> 299 \<longrightarrow>
            apiCall env method uri queryParams body result st
              = Return ((status, None), result', st'))"
proof -
  from assms(2,3) have "ContentLength r \<noteq> 0"
    by (auto simp: lengthConsistent_def)
  then show ?thesis
    using apiCall_after_round_trip [OF assms(1), of result] by auto
qed

theorem apiCall_decodes_before_status_witness:
  "Body (response 500 ''500 Internal Server Error'' 2 ''[]'') \<noteq> []
   \<and> lengthConsistent (response 500 ''500 Internal Server Error'' 2 ''[]'')
   \<and> (\<exists>st'. apiCall (server (Inr (response 500 ''500 Internal Server Error'' 2 ''[]'')))
               HTTPGet ChronosAPIJobs [] [] (JobsSlot [sampleJob]) readyState
             = Return ((500, Some (ErrorsNew ''500 Internal Server Error'')), JobsSlot [], st'))
   \<and> (\<exists>st'. apiCall (server (Inr (response 200 ''200 OK'' 4 ''oops'')))
               HTTPGet ChronosAPIJobs [] [] (JobsSlot [sampleJob]) readyState
             = Return ((200, Some (DecodeError ''invalid character'')), JobsSlot [sampleJob], st'))"
proof -
  let ?r = "response 500 ''500 Internal Server Error'' 2 ''[]''"
  let ?q = "response 200 ''200 OK'' 4 ''oops''"
  have b: "Body ?r \<noteq> []" "lengthConsistent ?r" "Body ?q \<noteq> []" "lengthConsistent ?q"
    by (simp_all add: response_def lengthConsistent_def)
  obtain st1 where h1: "httpCall (server (Inr ?r)) HTTPGet []
        (readyState\<lparr>client := buildURL (client readyState) ChronosAPIJobs []\<rparr>)
      = Return (Inr (StatusCode ?r, ?r), st1)"
    using httpCall_server_ready by blast
  obtain st2 where h2: "httpCall (server (Inr ?q)) HTTPGet []
        (readyState\<lparr>client := buildURL (client readyState) ChronosAPIJobs []\<rparr>)
      = Return (Inr (StatusCode ?q, ?q), st2)"
    using httpCall_server_ready by blast
  have d1: "Decode (server (Inr ?r)) (Body ?r) (JobsSlot [sampleJob]) = (None, JobsSlot [])"
    by (simp add: Decode_def server_def sampleDecodeJobs_def response_def)
  have d2: "Decode (server (Inr ?q)) (Body ?q) (JobsSlot [sampleJob])
              = (Some (DecodeError ''invalid character''), JobsSlot [sampleJob])"
    by (simp add: Decode_def server_def sampleDecodeJobs_def response_def)
  from apiCall_decodes_before_status [OF h1 b(1,2), of "JobsSlot [sampleJob]"] d1
  have "apiCall (server (Inr ?r)) HTTPGet ChronosAPIJobs [] [] (JobsSlot [sampleJob]) readyState
          = Return ((500, Some (ErrorsNew ''500 Internal Server Error'')), JobsSlot [], st1)"
    by (simp add: response_def)
  moreover
  from apiCall_decodes_before_status [OF h2 b(3,4), of "JobsSlot [sampleJob]"] d2
  have "apiCall (server (Inr ?q)) HTTPGet ChronosAPIJobs [] [] (JobsSlot [sampleJob]) readyState
          = Return ((200, Some (DecodeError ''invalid character'')), JobsSlot [sampleJob], st2)"
    by (simp add: response_def)
  ultimately show ?thesis using b by blast
qed

lemma apiCall_server_ready:
  "\<exists>st'. apiCall (server (Inr r)) method uri queryParams body result readyState =
      (if ContentLength r \<noteq> 0 then
         (case Decode (server (Inr r)) (Body r) result of
            (Some e, result') \<Rightarrow> Return ((StatusCode r, Some e), result', st')
          | (None, result') \<Rightarrow>
              (if StatusCode r < 200 \<or> StatusCode r > 299
               then Return ((StatusCode r, Some (ErrorsNew (Status r))), result', st')
               else Return ((StatusCode r, None), result', st')))
       else (if StatusCode r < 200 \<or> StatusCode r > 299
             then Return ((StatusCode r, Some (ErrorsNew (Status r))), result, st')
             else Return ((StatusCode r, None), result, st')))"
proof -
  obtain st' where "httpCall (server (Inr r)) method body
        (readyState\<lparr>client := buildURL (client readyState) uri queryParams\<rparr>)
      = Return (Inr (StatusCode r, r), st')"
    using httpCall_server_ready by blast
  from apiCall_after_round_trip [OF this] show ?thesis by blast
qed

lemma Decode_sample_Jobs:
  "Decode (server answer) body (JobsSlot jobs) =
     (if body = [] then (Some (DecodeError ''EOF''), JobsSlot jobs)
      else if body = ''[]'' then (None, JobsSlot [])
      else (Some (DecodeError ''invalid character''), JobsSlot jobs))"
  by (simp add: Decode_def server_def sampleDecodeJobs_def)

text \<open>
  C5 (as stated, refuted). The claim says that after a completed round trip the call
  succeeds if and only if the status is in [200,299], and that any other status fails
  with the status line. With status 200 and a body that does not decode the call fails;
  with status 500 and such a body the error is the decoder's, not the status line. The
  decoder is run on the declared length, not on the bytes: with status 200, no body
  bytes and an unknown length (\<open>ContentLength = -1\<close>) the call fails as well.
\<close>

theorem apiCall_status_classification_counterexample:
  "map_option fst (returned (apiCall (server (Inr (response 200 ''200 OK'' 4 ''oops'')))
       HTTPGet ChronosAPIJobs [] [] (JobsSlot []) readyState))
     = Some (200, Some (DecodeError ''invalid character''))
   \<and> map_option fst (returned (apiCall
         (server (Inr (response 500 ''500 Internal Server Error'' 4 ''oops'')))
         HTTPGet ChronosAPIJobs [] [] (JobsSlot []) readyState))
     = Some (500, Some (DecodeError ''invalid character''))
   \<and> Body (response 200 ''200 OK'' (- 1) []) = []
   \<and> map_option fst (returned (apiCall (server (Inr (response 200 ''200 OK'' (- 1) [])))
         HTTPPut ChronosAPIJob [] [] (JobsSlot []) readyState))
     = Some (200, Some (DecodeError ''EOF''))"
proof -
  obtain st1 where "apiCall (server (Inr (response 200 ''200 OK'' 4 ''oops'')))
       HTTPGet ChronosAPIJobs [] [] (JobsSlot []) readyState
     = Return ((200, Some (DecodeError ''invalid character'')), JobsSlot [], st1)"
    using apiCall_server_ready [of "response 200 ''200 OK'' 4 ''oops''" HTTPGet ChronosAPIJobs
        "[]" "[]" "JobsSlot []"]
    by (auto simp: response_def Decode_sample_Jobs)
  moreover
  obtain st2 where "apiCall (server (Inr (response 500 ''500 Internal Server Error'' 4 ''oops'')))
       HTTPGet ChronosAPIJobs [] [] (JobsSlot []) readyState
     = Return ((500, Some (DecodeError ''invalid character'')), JobsSlot [], st2)"
    using apiCall_server_ready [of "response 500 ''500 Internal Server Error'' 4 ''oops''"
        HTTPGet ChronosAPIJobs "[]" "[]" "JobsSlot []"]
    by (auto simp: response_def Decode_sample_Jobs)
  moreover
  obtain st3 where "apiCall (server (Inr (response 200 ''200 OK'' (- 1) [])))
       HTTPPut ChronosAPIJob [] [] (JobsSlot []) readyState
     = Return ((200, Some (DecodeError ''EOF'')), JobsSlot [], st3)"
    using apiCall_server_ready [of "response 200 ''200 OK'' (- 1) []" HTTPPut ChronosAPIJob
        "[]" "[]" "JobsSlot []"]
    by (auto simp: response_def Decode_sample_Jobs)
  ultimately show ?thesis by (simp add: response_def)
qed

text \<open>
  C5 (amended). After every completed round trip the call returns the raw status code
  of the response next to its error or result. When the declared content length of the
  response is zero, or decoding its body into the result slot reports no error, the call
  succeeds if and only if the status is in [200,299], and any other status gives the
  failure whose text is the status line of the response.
\<close>

theorem apiCall_status_classification:
  assumes "httpCall env method body (st\<lparr>client := buildURL (client st) uri queryParams\<rparr>)
             = Return (Inr (status, r), st')"
  shows "(\<exists>err result'. apiCall env method uri queryParams body result st
                          = Return ((StatusCode r, err), result', st'))
       \<and> ((ContentLength r \<noteq> 0 \<longrightarrow> fst (Decode env (Body r) result) = None) \<longrightarrow>
            (\<exists>result'. apiCall env method uri queryParams body result st
               = Return ((StatusCode r,
                          if 200 \<le> StatusCode r \<and> StatusCode r \<le> 299 then None
                          else Some (ErrorsNew (Status r))), result', st')))"
proof -
  have s: "status = StatusCode r"
    using httpCall_status [OF assms] .
  show ?thesis
    using apiCall_after_round_trip [OF assms, of result]
    by (cases "Decode env (Body r) result") (auto simp: s split: option.splits)
qed

theorem apiCall_status_classification_witness:
  "(\<exists>result' st'. apiCall (server (Inr (response 404 ''404 Not Found'' 2 ''[]'')))
             HTTPGet ChronosAPIJobs [] [] (JobsSlot [sampleJob]) readyState
           = Return ((404, Some (ErrorsNew ''404 Not Found'')), result', st'))
   \<and> (\<exists>result' st'. apiCall (server (Inr (response 204 ''204 No Content'' 0 [])))
             HTTPDelete ChronosAPIJob [] [] NilSlot readyState
           = Return ((204, None), result', st'))"
proof -
  let ?r = "response 404 ''404 Not Found'' 2 ''[]''"
  let ?q = "response 204 ''204 No Content'' 0 []"
  obtain st1 where h1: "httpCall (server (Inr ?r)) HTTPGet []
        (readyState\<lparr>client := buildURL (client readyState) ChronosAPIJobs []\<rparr>)
      = Return (Inr (StatusCode ?r, ?r), st1)"
    using httpCall_server_ready by blast
  obtain st2 where h2: "httpCall (server (Inr ?q)) HTTPDelete []
        (readyState\<lparr>client := buildURL (client readyState) ChronosAPIJob []\<rparr>)
      = Return (Inr (StatusCode ?q, ?q), st2)"
    using httpCall_server_ready by blast
  have d1: "ContentLength ?r \<noteq> 0 \<longrightarrow>
              fst (Decode (server (Inr ?r)) (Body ?r) (JobsSlot [sampleJob])) = None"
    by (simp add: Decode_sample_Jobs response_def)
  have d2: "ContentLength ?q \<noteq> 0 \<longrightarrow>
              fst (Decode (server (Inr ?q)) (Body ?q) NilSlot) = None"
    by (simp add: response_def)
  have a1: "\<exists>result'. apiCall (server (Inr ?r)) HTTPGet ChronosAPIJobs [] []
                (JobsSlot [sampleJob]) readyState
          = Return ((404, Some (ErrorsNew ''404 Not Found'')), result', st1)"
    using apiCall_status_classification [OF h1, of "JobsSlot [sampleJob]"] d1
    by (simp add: response_def)
  have a2: "\<exists>result'. apiCall (server (Inr ?q)) HTTPDelete ChronosAPIJob [] [] NilSlot readyState
          = Return ((204, None), result', st2)"
    using apiCall_status_classification [OF h2, of NilSlot] d2
    by (simp add: response_def)
  from a1 a2 show ?thesis by blast
qed

text \<open>
  C7 (as stated, refuted). The claim says that a response with status 200 and an empty
  body always gives a successful call with no decoding. The executor looks at the
  declared length, not at the body: a response with status 200, no body bytes and an
  unknown length (\<open>ContentLength = -1\<close>, a chunked or HTTP/2 response with no data) is
  decoded, and decoding the empty stream fails.
\<close>

theorem apiCall_empty_body_counterexample:
  "StatusCode (response 200 ''200 OK'' (- 1) []) = 200
   \<and> Body (response 200 ''200 OK'' (- 1) []) = []
   \<and> map_option fst (returned (apiCall (server (Inr (response 200 ''200 OK'' (- 1) [])))
        HTTPGet ChronosAPIJobs [] [] (JobsSlot []) readyState))
      = Some (200, Some (DecodeError ''EOF''))"
proof -
  obtain st1 where "apiCall (server (Inr (response 200 ''200 OK'' (- 1) [])))
       HTTPGet ChronosAPIJobs [] [] (JobsSlot []) readyState
     = Return ((200, Some (DecodeError ''EOF'')), JobsSlot [], st1)"
    using apiCall_server_ready [of "response 200 ''200 OK'' (- 1) []" HTTPGet ChronosAPIJobs
        "[]" "[]" "JobsSlot []"]
    by (auto simp: response_def Decode_sample_Jobs)
  then show ?thesis by (simp add: response_def)
qed

text \<open>
  C7 (amended). For every round trip where the server returns status 200 and the
  response declares a content length of zero (so that its body is empty), the call
  succeeds with a nil error and the caller's result slot is left exactly at its
  caller-provided value: the decoder is not consulted.
\<close>

theorem apiCall_zero_length_no_decode:
  assumes "httpCall env method body (st\<lparr>client := buildURL (client st) uri queryParams\<rparr>)
             = Return (Inr (status, r), st')"
    and "StatusCode r = 200" and "ContentLength r = 0"
  shows "apiCall env method uri queryParams body result st = Return ((200, None), result, st')"
  using apiCall_after_round_trip [OF assms(1), of result] httpCall_status [OF assms(1)] assms(2,3)
  by simp

theorem apiCall_zero_length_no_decode_witness:
  "StatusCode (response 200 ''200 OK'' 0 []) = 200
   \<and> ContentLength (response 200 ''200 OK'' 0 []) = 0
   \<and> (\<exists>st'. apiCall (server (Inr (response 200 ''200 OK'' 0 [])))
               HTTPGet ChronosAPIJobs [] [] (JobsSlot [sampleJob]) readyState
             = Return ((200, None), JobsSlot [sampleJob], st'))"
proof -
  let ?r = "response 200 ''200 OK'' 0 []"
  have c: "StatusCode ?r = 200" "ContentLength ?r = 0"
    by (simp_all add: response_def)
  obtain st1 where h1: "httpCall (server (Inr ?r)) HTTPGet []
        (readyState\<lparr>client := buildURL (client readyState) ChronosAPIJobs []\<rparr>)
      = Return (Inr (StatusCode ?r, ?r), st1)"
    using httpCall_server_ready by blast
  from apiCall_zero_length_no_decode [OF h1 c, of "JobsSlot [sampleJob]"] c
  show ?thesis by blast
qed

text \<open>
  C10. When the response has a non-empty body that does not decode and a status outside
  [200,299], the call fails with the decoder's error, which is not the service error
  made from the status line, and the raw status code of the response is still returned.
\<close>

theorem apiCall_decode_error_wins:
  assumes "httpCall env method body (st\<lparr>client := buildURL (client st) uri queryParams\<rparr>)
             = Return (Inr (status, r), st')"
    and "Body r \<noteq> []" and "lengthConsistent r"
    and "Decode env (Body r) result = (Some err, result')"
    and "status < 200 \<or> status > 299"
  shows "apiCall env method uri queryParams body result st
           = Return ((StatusCode r, Some err), result', st')
         \<and> (\<exists>msg. err = DecodeError msg) \<and> err \<noteq> ErrorsNew (Status r)"
proof -
  from assms(2,3) have "ContentLength r \<noteq> 0"
    by (auto simp: lengthConsistent_def)
  moreover obtain msg where "err = DecodeError msg"
    using Decode_error_kind [OF assms(4)] by blast
  ultimately show ?thesis
    using apiCall_after_round_trip [OF assms(1), of result] httpCall_status [OF assms(1)] assms(4)
    by simp
qed

theorem apiCall_decode_error_wins_witness:
  "Body (response 500 ''500 Internal Server Error'' 4 ''oops'') \<noteq> []
   \<and> lengthConsistent (response 500 ''500 Internal Server Error'' 4 ''oops'')
   \<and> (\<exists>st'. apiCall (server (Inr (response 500 ''500 Internal Server Error'' 4 ''oops'')))
               HTTPGet ChronosAPIJobs [] [] (JobsSlot [sampleJob]) readyState
             = Return ((500, Some (DecodeError ''invalid character'')), JobsSlot [sampleJob], st'))"
proof -
  let ?r = "response 500 ''500 Internal Server Error'' 4 ''oops''"
  have b: "Body ?r \<noteq> []" "lengthConsistent ?r"
    by (simp_all add: response_def lengthConsistent_def)
  obtain st1 where h1: "httpCall (server (Inr ?r)) HTTPGet []
        (readyState\<lparr>client := buildURL (client readyState) ChronosAPIJobs []\<rparr>)
      = Return (Inr (StatusCode ?r, ?r), st1)"
    using httpCall_server_ready by blast
  have d: "Decode (server (Inr ?r)) (Body ?r) (JobsSlot [sampleJob])
             = (Some (DecodeError ''invalid character''), JobsSlot [sampleJob])"
    by (simp add: Decode_sample_Jobs response_def)
  have o: "StatusCode ?r < 200 \<or> StatusCode ?r > 299"
    by (simp add: response_def)
  from apiCall_decode_error_wins [OF h1 b d o] b
  show ?thesis by (auto simp: response_def)
qed

section \<open>Properties of the request builder\<close>

lemma buildURL_frame:
  "APIPrefix (buildURL c uri queryParams) = APIPrefix c
   \<and> RequestTimeout (buildURL c uri queryParams) = RequestTimeout c
   \<and> BasicAuth (buildURL c uri queryParams) = BasicAuth c
   \<and> Debug (buildURL c uri queryParams) = Debug c
   \<and> Scheme (URL (buildURL c uri queryParams)) = Scheme (URL c)
   \<and> Host (URL (buildURL c uri queryParams)) = Host (URL c)"
  by (simp add: buildURL_def Let_def)

lemma buildURL_Path: "Path (URL (buildURL c uri queryParams)) = Join [APIPrefix c, uri]"
  by (simp add: buildURL_def Let_def)

lemma buildURL_RawQuery:
  "RawQuery (URL (buildURL c uri queryParams))
     = Encode (foldl (\<lambda>q (k, v). Add q k v) (Query (URL c)) queryParams)"
  by (simp add: buildURL_def Let_def)

lemma parseQuery_Nil: "parseQuery m [] = m"
  by (subst parseQuery.simps) simp

lemma Query_empty: "RawQuery u = [] \<Longrightarrow> Query u = []"
  by (simp add: Query_def parseQuery_Nil)

lemma builtRequest_fields:
  "Method (builtRequest c method body) = method
   \<and> Target (builtRequest c method body) = URL c
   \<and> ReqBody (builtRequest c method body) = body
   \<and> Header (builtRequest c method body)
       = [(''Content-Type'', ''application/json''), (''Accept'', ''application/json'')]
   \<and> Auth (builtRequest c method body) = Some (Username (BasicAuth c), Password (BasicAuth c))"
  by (simp add: builtRequest_def applyRequestHeaders_def)

section \<open>The order of the query parameters does not matter\<close>

text \<open>
  Two lists with the same entries and distinct keys are two traversals of one map:
  \<open>buildURL\<close> gives the same client for both.
\<close>

lemma keys_Add:
  "map fst (Add m k v) = (if k \<in> set (map fst m) then map fst m else map fst m @ [k])"
  by (induction m k v rule: Add.induct) auto

lemma distinct_keys_Add: "distinct (map fst m) \<Longrightarrow> distinct (map fst (Add m k v))"
  by (simp add: keys_Add)

lemma valuesOf_Add:
  "valuesOf (Add m k v) k' = (if k' = k then valuesOf m k @ [v] else valuesOf m k')"
  by (induction m k v rule: Add.induct) (auto simp: valuesOf_def)

lemma set_keys_Add: "fst ` set (Add m k v) = insert k (fst ` set m)"
  using keys_Add [of m k v, THEN arg_cong, of set] by (auto split: if_splits)

lemma keys_foldl_Add:
  "fst ` set (foldl (\<lambda>q (k, v). Add q k v) q ps) = fst ` set q \<union> fst ` set ps"
proof (induction ps arbitrary: q)
  case Nil
  show ?case by simp
next
  case (Cons p ps)
  obtain k v where p: "p = (k, v)" by (cases p)
  show ?case
    unfolding p using Cons.IH [of "Add q k v"] by (simp add: set_keys_Add)
qed

lemma distinct_keys_foldl_Add:
  "distinct (map fst q) \<Longrightarrow> distinct (map fst (foldl (\<lambda>q (k, v). Add q k v) q ps))"
proof (induction ps arbitrary: q)
  case Nil
  then show ?case by simp
next
  case (Cons p ps)
  obtain k v where p: "p = (k, v)" by (cases p)
  show ?case
    unfolding p using Cons.IH [OF distinct_keys_Add [OF Cons.prems, of k v]] by simp
qed

lemma valuesOf_foldl_Add:
  "valuesOf (foldl (\<lambda>q (k, v). Add q k v) q ps) k
     = valuesOf q k @ map snd (filter (\<lambda>p. fst p = k) ps)"
proof (induction ps arbitrary: q)
  case Nil
  show ?case by simp
next
  case (Cons p ps)
  obtain k' v where p: "p = (k', v)" by (cases p)
  show ?case
    unfolding p using Cons.IH [of "Add q k' v"] by (simp add: valuesOf_Add)
qed

lemma filter_key_distinct:
  assumes "distinct (map fst ps)"
  shows "map snd (filter (\<lambda>p. fst p = k) ps) = (case map_of ps k of None \<Rightarrow> [] | Some v \<Rightarrow> [v])"
  using assms
proof (induction ps)
  case Nil
  show ?case by simp
next
  case (Cons p ps)
  obtain k' v' where p: "p = (k', v')" by (cases p)
  show ?case
  proof (cases "k' = k")
    case True
    with Cons.prems p have "filter (\<lambda>p. fst p = k) ps = []"
      by (auto simp: filter_empty_conv)
    with True p show ?thesis by simp
  next
    case False
    with Cons p show ?thesis by simp
  qed
qed

lemma Encode_cong:
  assumes "distinct (map fst v)" "distinct (map fst v')"
    and "set (map fst v) = set (map fst v')"
    and "\<And>k. valuesOf v k = valuesOf v' k"
  shows "Encode v = Encode v'"
proof -
  have "sort (map fst v) = sort (map fst v')"
    using assms(1-3) by (intro sorted_distinct_set_unique) simp_all
  moreover have "(v = []) = (v' = [])"
    using assms(3) by (cases v; cases v') auto
  moreover have "(\<lambda>buf k. encodeValues buf (QueryEscape k) (valuesOf v k))
      = (\<lambda>buf k. encodeValues buf (QueryEscape k) (valuesOf v' k))"
    using assms(4) by simp
  ultimately show ?thesis
    by (simp add: Encode_def)
qed

lemma distinct_keys_parsePair: "distinct (map fst m) \<Longrightarrow> distinct (map fst (parsePair m piece))"
  by (simp add: parsePair_def distinct_keys_Add split: option.splits)

lemma distinct_keys_parseQuery: "distinct (map fst m) \<Longrightarrow> distinct (map fst (parseQuery m query))"
proof (induction m query rule: parseQuery.induct)
  case (1 m query)
  show ?case
  proof (cases "query = []")
    case True
    with "1.prems" show ?thesis by (subst parseQuery.simps) simp
  next
    case False
    from "1.IH" [OF False distinct_keys_parsePair [OF "1.prems"]] False
    show ?thesis by (subst parseQuery.simps) simp
  qed
qed

lemma buildURL_order_irrelevant:
  assumes "distinct (map fst ps)" "distinct (map fst ps')" "set ps = set ps'"
  shows "buildURL c uri ps = buildURL c uri ps'"
proof -
  let ?q = "Query (URL c)"
  have d: "distinct (map fst ?q)"
    by (simp add: Query_def distinct_keys_parseQuery)
  have m: "map_of ps = map_of ps'"
    using assms by (simp add: map_of_inject_set)
  have "Encode (foldl (\<lambda>q (k, v). Add q k v) ?q ps) = Encode (foldl (\<lambda>q (k, v). Add q k v) ?q ps')"
  proof (rule Encode_cong)
    show "distinct (map fst (foldl (\<lambda>q (k, v). Add q k v) ?q ps))"
      and "distinct (map fst (foldl (\<lambda>q (k, v). Add q k v) ?q ps'))"
      using d by (simp_all add: distinct_keys_foldl_Add)
    show "set (map fst (foldl (\<lambda>q (k, v). Add q k v) ?q ps))
        = set (map fst (foldl (\<lambda>q (k, v). Add q k v) ?q ps'))"
      using assms(3) by (simp only: set_map keys_foldl_Add)
    fix k
    show "valuesOf (foldl (\<lambda>q (k, v). Add q k v) ?q ps) k
        = valuesOf (foldl (\<lambda>q (k, v). Add q k v) ?q ps') k"
      by (simp only: valuesOf_foldl_Add filter_key_distinct [OF assms(1)]
          filter_key_distinct [OF assms(2)] m)
  qed
  then show ?thesis
    by (simp add: buildURL_def Let_def)
qed

section \<open>What a call does to the state\<close>

lemma newRequest_cases:
  "newRequest env c method body =
     (case http_NewRequest_error env method (URL c) of
        Some msg \<Rightarrow> Inl (RequestError msg)
      | None \<Rightarrow> Inr (builtRequest c method body))"
  by (simp add: newRequest_def http_NewRequest_def builtRequest_def split: option.splits)

lemma httpCall_Return_state:
  assumes "httpCall env method body st = Return (res, st')"
  shows "client st' = client st
         \<and> (wire st' = wire st \<and> (\<exists>msg. res = Inl (RequestError msg))
            \<or> wire st' = wire st @ [builtRequest (client st) method body])"
  using assms
  by (auto simp: httpCall_def newRequest_cases split: option.splits sum.splits)

lemma httpCall_sends:
  assumes "http (client st) = Some hc"
    and "http_NewRequest_error env method (URL (client st)) = None"
  shows "\<exists>res. httpCall env method body st
           = Return (res, st\<lparr>wire := wire st @ [builtRequest (client st) method body]\<rparr>)"
  using assms
  by (auto simp: httpCall_def newRequest_cases split: option.splits sum.splits)

lemma apiCall_Return_state:
  assumes "apiCall env method uri queryParams body result st = Return (res, result', st')"
  shows "client st' = buildURL (client st) uri queryParams
         \<and> (wire st' = wire st
            \<or> wire st' = wire st @ [builtRequest (buildURL (client st) uri queryParams) method body])"
proof -
  let ?st1 = "st\<lparr>client := buildURL (client st) uri queryParams\<rparr>"
  from assms obtain r where h: "httpCall env method body ?st1 = Return (r, st')"
    by (auto simp: apiCall_def Let_def split: outcome.splits sum.splits prod.splits
        option.splits if_splits)
  from httpCall_Return_state [OF h] show ?thesis by auto
qed

lemma apiCall_sends:
  assumes "http (client st) = Some hc"
    and "http_NewRequest_error env method (URL (buildURL (client st) uri queryParams)) = None"
  shows "\<exists>res result'. apiCall env method uri queryParams body result st
           = Return (res, result',
               \<lparr>client = buildURL (client st) uri queryParams,
                wire = wire st @ [builtRequest (buildURL (client st) uri queryParams) method body]\<rparr>)"
proof -
  let ?st1 = "st\<lparr>client := buildURL (client st) uri queryParams\<rparr>"
  have "http (client ?st1) = Some hc" using assms(1) by simp
  from httpCall_sends [OF this, of env "method" "body"] assms(2)
  obtain r where h: "httpCall env method body ?st1
      = Return (r, ?st1\<lparr>wire := wire ?st1 @ [builtRequest (client ?st1) method body]\<rparr>)"
    by auto
  have e: "?st1\<lparr>wire := wire ?st1 @ [builtRequest (client ?st1) method body]\<rparr>
      = \<lparr>client = buildURL (client st) uri queryParams,
         wire = wire st @ [builtRequest (buildURL (client st) uri queryParams) method body]\<rparr>"
    by simp
  show ?thesis
    using h unfolding e
    by (cases r) (auto simp: apiCall_def Let_def split: prod.splits option.splits)
qed

section \<open>Properties of \<open>TrimSpace\<close>\<close>

text \<open>
  The first byte of an encoding fixes its length, so no encoding of \<open>spaceRunes\<close> is a
  proper prefix of another.
\<close>

lemma spaceRunes_len: "w \<in> set spaceRunes \<Longrightarrow> w \<noteq> [] \<and> length w = runeLen (hd w)"
  by (auto simp: spaceRunes_def runeLen_def)

lemma HasPrefix_iff: "HasPrefix s w \<longleftrightarrow> (\<exists>rest. s = w @ rest)"
  by (auto simp: HasPrefix_def) (metis append_take_drop_id)

lemma spaceRunes_prefix_free:
  assumes "w1 \<in> set spaceRunes" "w2 \<in> set spaceRunes" "HasPrefix s w1" "HasPrefix s w2"
  shows "w1 = w2"
proof -
  from assms(3) obtain r1 where s1: "s = w1 @ r1"
    by (auto simp: HasPrefix_iff)
  from assms(4) obtain r2 where s2: "s = w2 @ r2"
    by (auto simp: HasPrefix_iff)
  note s = s1 s2
  from spaceRunes_len [OF assms(1)] spaceRunes_len [OF assms(2)]
  have n: "w1 \<noteq> []" "w2 \<noteq> []" "length w1 = runeLen (hd w1)" "length w2 = runeLen (hd w2)"
    by simp_all
  from s n(1,2) have "hd w1 = hd w2"
    by (metis hd_append2)
  with n have "length w1 = length w2" by simp
  with s show ?thesis by (metis append_eq_append_conv)
qed

lemma trimRunes_Nil_concat:
  "trimRunes table s = [] \<Longrightarrow> \<exists>ws. set ws \<subseteq> set table \<and> [] \<notin> set ws \<and> concat ws = s"
proof (induction table s rule: trimRunes.induct)
  case (1 table)
  show ?case by (rule exI [of _ "[]"]) simp
next
  case (2 table c cs)
  show ?case
  proof (cases "find (\<lambda>w. w \<noteq> [] \<and> HasPrefix (c # cs) w) table")
    case None
    with "2.prems" show ?thesis by simp
  next
    case (Some w)
    then have w: "w \<in> set table" "w \<noteq> []" "HasPrefix (c # cs) w"
      by (auto simp: find_Some_iff)
    from "2.prems" Some have "trimRunes table (drop (length w - 1) cs) = []"
      by simp
    from "2.IH" [OF Some this] obtain ws where
      ws: "set ws \<subseteq> set table" "[] \<notin> set ws" "concat ws = drop (length w - 1) cs"
      by blast
    from w(3) obtain rest where r: "c # cs = w @ rest"
      by (auto simp: HasPrefix_iff)
    with w(2) have "c # cs = w @ drop (length w - 1) cs"
      by (cases w) auto
    with ws w(1,2) show ?thesis
      by (intro exI [of _ "w # ws"]) auto
  qed
qed

lemma trimRunes_no_leading:
  "trimRunes table s = [] \<or> find (\<lambda>w. w \<noteq> [] \<and> HasPrefix (trimRunes table s) w) table = None"
proof (induction table s rule: trimRunes.induct)
  case (1 table)
  show ?case by simp
next
  case (2 table c cs)
  show ?case
  proof (cases "find (\<lambda>w. w \<noteq> [] \<and> HasPrefix (c # cs) w) table")
    case None
    then show ?thesis by simp
  next
    case (Some w)
    with "2.IH" [OF Some] show ?thesis by simp
  qed
qed

lemma concat_starts_with:
  assumes "set ws \<subseteq> set table" "[] \<notin> set ws" "concat ws \<noteq> []"
  shows "find (\<lambda>w. w \<noteq> [] \<and> HasPrefix (concat ws) w) table \<noteq> None"
proof -
  from assms(3) obtain w ws' where "ws = w # ws'"
    by (cases ws) auto
  with assms(1,2) have "w \<in> set table" "w \<noteq> []" "HasPrefix (concat ws) w"
    by (auto simp: HasPrefix_iff)
  then show ?thesis
    by (auto simp: find_None_iff)
qed

lemma concat_trimRunes_spaceRunes:
  assumes "set ws \<subseteq> set spaceRunes"
  shows "trimRunes spaceRunes (concat ws) = []"
  using assms
proof (induction ws)
  case Nil
  show ?case by simp
next
  case (Cons w ws)
  then have w: "w \<in> set spaceRunes" and ih: "trimRunes spaceRunes (concat ws) = []"
    by simp_all
  from spaceRunes_len [OF w] obtain c cs where wc: "w = c # cs"
    by (cases w) auto
  have p: "HasPrefix (concat (w # ws)) w"
    by (simp add: HasPrefix_iff)
  with w wc have "find (\<lambda>v. v \<noteq> [] \<and> HasPrefix (concat (w # ws)) v) spaceRunes \<noteq> None"
    by (auto simp: find_None_iff)
  then obtain v where v: "find (\<lambda>v. v \<noteq> [] \<and> HasPrefix (concat (w # ws)) v) spaceRunes = Some v"
    by blast
  then have "v \<in> set spaceRunes" "HasPrefix (concat (w # ws)) v"
    by (auto simp: find_Some_iff)
  with w p have "v = w"
    using spaceRunes_prefix_free by blast
  with v wc ih show ?case
    by simp
qed

lemma TrimLeftSpace_Nil_iff: "TrimLeftSpace s = [] \<longleftrightarrow> spec_blank s"
  unfolding TrimLeftSpace_def spec_blank_def
  using trimRunes_Nil_concat [of spaceRunes s] concat_trimRunes_spaceRunes
  by blast

lemma rev_concat_runes:
  assumes "set ws \<subseteq> set (map rev table)"
  shows "\<exists>vs. set vs \<subseteq> set table \<and> concat vs = rev (concat ws) \<and> ([] \<in> set vs \<longrightarrow> [] \<in> set ws)"
  using assms
proof (induction ws)
  case Nil
  show ?case by (rule exI [of _ "[]"]) simp
next
  case (Cons w ws)
  then obtain vs where vs: "set vs \<subseteq> set table" "concat vs = rev (concat ws)"
    "[] \<in> set vs \<longrightarrow> [] \<in> set ws"
    by auto
  from Cons.prems obtain v where v: "v \<in> set table" "w = rev v"
    by auto
  with vs show ?case
    by (intro exI [of _ "vs @ [v]"]) auto
qed

lemma TrimSpace_Nil_iff: "TrimSpace s = [] \<longleftrightarrow> spec_blank s"
proof
  assume "spec_blank s"
  then have "TrimLeftSpace s = []"
    by (simp add: TrimLeftSpace_Nil_iff)
  then show "TrimSpace s = []"
    by (simp add: TrimSpace_def TrimRightSpace_def)
next
  assume t: "TrimSpace s = []"
  let ?l = "TrimLeftSpace s"
  have "?l = []"
  proof (rule ccontr)
    assume n: "?l \<noteq> []"
    from t have "trimRunes (map rev spaceRunes) (rev ?l) = []"
      by (simp add: TrimSpace_def TrimRightSpace_def)
    from trimRunes_Nil_concat [OF this] obtain ws where
      ws: "set ws \<subseteq> set (map rev spaceRunes)" "[] \<notin> set ws" "concat ws = rev ?l"
      by blast
    from rev_concat_runes [OF ws(1)] ws(2,3) obtain vs where
      vs: "set vs \<subseteq> set spaceRunes" "concat vs = ?l" "[] \<notin> set vs"
      by auto
    from concat_starts_with [OF vs(1,3)] vs(2) n
    have "find (\<lambda>w. w \<noteq> [] \<and> HasPrefix ?l w) spaceRunes \<noteq> None"
      by simp
    moreover from trimRunes_no_leading [of spaceRunes s] n
    have "find (\<lambda>w. w \<noteq> [] \<and> HasPrefix ?l w) spaceRunes = None"
      by (simp add: TrimLeftSpace_def)
    ultimately show False by simp
  qed
  then show "spec_blank s"
    by (simp add: TrimLeftSpace_Nil_iff)
qed

section \<open>Properties of the operation facade\<close>

lemma dropStatus_Return:
  "dropStatus r = Return (err, result', st') \<longleftrightarrow> (\<exists>status. r = Return ((status, err), result', st'))"
  by (auto simp: dropStatus_def split: outcome.splits)

lemma returnJobs_Return:
  "returnJobs r = Return (res, st') \<longleftrightarrow>
     (\<exists>err slot. r = Return (err, slot, st')
        \<and> res = (case err of Some e \<Rightarrow> Inl e | None \<Rightarrow> Inr (derefJobs slot)))"
  by (auto simp: returnJobs_def split: outcome.splits option.splits)

lemma returnErr_Return:
  "returnErr r = Return (err, st') \<longleftrightarrow> (\<exists>slot. r = Return (err, slot, st'))"
  by (auto simp: returnErr_def split: outcome.splits)

lemma withJob_Return:
  "withJob job r = Return (err, job', st') \<longleftrightarrow> (job' = job \<and> r = Return (err, st'))"
  by (auto simp: withJob_def split: outcome.splits)

lemma QueryEscape_name: "QueryEscape ''name'' = ''name''"
  by (simp add: shouldEscape_def isAlnum_def between_def)

lemma Encode_name: "Encode (Add [] ''name'' v) = ''name='' @ QueryEscape v"
  by (simp add: Encode_def valuesOf_def shouldEscape_def isAlnum_def between_def)

text \<open>
  C8. A name that is empty or only white space makes \<open>SearchJobs\<close> fail with the
  validation error, and the state (the client and the requests sent) is left as it was.
  For every other name \<open>SearchJobs\<close> makes one GET call to \<open>scheduler/jobs/search\<close> with
  the query parameter \<open>name\<close>; on an initialised client whose target
  \<open>http.NewRequest\<close> accepts, that call sends exactly one request, a GET whose path is
  the prefix joined with \<open>scheduler/jobs/search\<close> and whose query has \<open>name\<close> added.
\<close>

theorem SearchJobs_blank_or_one_GET:
  "(spec_blank name \<longrightarrow>
      SearchJobs env name st
        = Return (Inl (ErrorsNew ''[SearchJobs] missing name argument''), st))
   \<and> (\<not> spec_blank name \<longrightarrow>
        SearchJobs env name st
          = returnJobs (apiGet env ''scheduler/jobs/search'' [(''name'', name)] (JobsSlot []) st)
        \<and> (\<forall>res st'. SearchJobs env name st = Return (res, st') \<longrightarrow>
              length (wire st') \<le> length (wire st) + 1)
        \<and> (\<forall>hc. http (client st) = Some hc
                \<and> http_NewRequest_error env ''GET''
                     (URL (buildURL (client st) ''scheduler/jobs/search'' [(''name'', name)])) = None
              \<longrightarrow> (\<exists>res st' request.
                     SearchJobs env name st = Return (res, st')
                     \<and> wire st' = wire st @ [request]
                     \<and> Method request = ''GET''
                     \<and> Path (Target request)
                         = Join [APIPrefix (client st), ''scheduler/jobs/search'']
                     \<and> (\<exists>q. RawQuery (Target request) = Encode (Add q ''name'' name))
                     \<and> (RawQuery (URL (client st)) = [] \<longrightarrow>
                          RawQuery (Target request) = ''name='' @ QueryEscape name))))"
  unfolding TrimSpace_Nil_iff [symmetric]
proof (intro conjI impI allI)
  assume "TrimSpace name = []"
  then show "SearchJobs env name st
        = Return (Inl (ErrorsNew ''[SearchJobs] missing name argument''), st)"
    by (simp add: SearchJobs_def)
next
  assume "TrimSpace name \<noteq> []"
  then show "SearchJobs env name st
          = returnJobs (apiGet env ''scheduler/jobs/search'' [(''name'', name)] (JobsSlot []) st)"
    by (simp add: SearchJobs_def ChronosAPIJobsSearch_def)
next
  fix res st'
  assume "TrimSpace name \<noteq> []" and "SearchJobs env name st = Return (res, st')"
  then obtain status err slot where
    "apiCall env HTTPGet ChronosAPIJobsSearch [(''name'', name)] [] (JobsSlot []) st
       = Return ((status, err), slot, st')"
    by (auto simp: SearchJobs_def apiGet_def returnJobs_Return dropStatus_Return)
  from apiCall_Return_state [OF this] show "length (wire st') \<le> length (wire st) + 1"
    by auto
next
  fix hc
  let ?c = "buildURL (client st) ''scheduler/jobs/search'' [(''name'', name)]"
  assume n: "TrimSpace name \<noteq> []"
    and "http (client st) = Some hc
         \<and> http_NewRequest_error env ''GET'' (URL ?c) = None"
  then have "http (client st) = Some hc"
    and "http_NewRequest_error env HTTPGet
           (URL (buildURL (client st) ChronosAPIJobsSearch [(''name'', name)])) = None"
    by (simp_all add: HTTPGet_def ChronosAPIJobsSearch_def)
  from apiCall_sends [OF this, of "[]" "JobsSlot []"]
  obtain r slot where a: "apiCall env HTTPGet ChronosAPIJobsSearch [(''name'', name)] []
        (JobsSlot []) st
      = Return (r, slot, \<lparr>client = ?c, wire = wire st @ [builtRequest ?c HTTPGet []]\<rparr>)"
    by (auto simp: ChronosAPIJobsSearch_def)
  let ?st' = "\<lparr>client = ?c, wire = wire st @ [builtRequest ?c HTTPGet []]\<rparr>"
  have "\<exists>res. SearchJobs env name st = Return (res, ?st')"
    using n a by (cases r) (simp add: SearchJobs_def apiGet_def returnJobs_Return dropStatus_Return)
  moreover have "Method (builtRequest ?c HTTPGet []) = ''GET''"
    by (simp add: builtRequest_fields HTTPGet_def)
  moreover have "Path (Target (builtRequest ?c HTTPGet []))
      = Join [APIPrefix (client st), ''scheduler/jobs/search'']"
    by (simp add: builtRequest_fields buildURL_Path)
  moreover have "\<exists>q. RawQuery (Target (builtRequest ?c HTTPGet []))
      = Encode (Add q ''name'' name)"
    by (auto simp: builtRequest_fields buildURL_RawQuery)
  moreover have "RawQuery (URL (client st)) = [] \<longrightarrow>
      RawQuery (Target (builtRequest ?c HTTPGet [])) = ''name='' @ QueryEscape name"
    using Encode_name [of name]
    by (simp add: builtRequest_fields buildURL_RawQuery Query_empty del: Add.simps)
  ultimately show "\<exists>res st' request.
                     SearchJobs env name st = Return (res, st')
                     \<and> wire st' = wire st @ [request]
                     \<and> Method request = ''GET''
                     \<and> Path (Target request)
                         = Join [APIPrefix (client st), ''scheduler/jobs/search'']
                     \<and> (\<exists>q. RawQuery (Target request) = Encode (Add q ''name'' name))
                     \<and> (RawQuery (URL (client st)) = [] \<longrightarrow>
                          RawQuery (Target request) = ''name='' @ QueryEscape name)"
    by (metis State.select_convs(2))
qed

theorem SearchJobs_blank_or_one_GET_witness:
  "spec_blank [CHR 0x20, CHR 0x09, CHR 0xC2, CHR 0xA0]
   \<and> SearchJobs okServer [CHR 0x20, CHR 0x09, CHR 0xC2, CHR 0xA0] readyState
       = Return (Inl (ErrorsNew ''[SearchJobs] missing name argument''), readyState)
   \<and> \<not> spec_blank ''my job''
   \<and> (\<exists>res st' request.
         SearchJobs okServer ''my job'' readyState = Return (res, st')
         \<and> wire st' = wire readyState @ [request]
         \<and> Method request = ''GET''
         \<and> Path (Target request) = ''scheduler/jobs/search''
         \<and> RawQuery (Target request) = ''name=my+job'')"
proof -
  have "TrimSpace [CHR 0x20, CHR 0x09, CHR 0xC2, CHR 0xA0] = []"
    by code_simp
  then have b: "spec_blank [CHR 0x20, CHR 0x09, CHR 0xC2, CHR 0xA0]"
    unfolding TrimSpace_Nil_iff .
  have "TrimSpace ''my job'' \<noteq> []"
    by code_simp
  then have n: "\<not> spec_blank ''my job''"
    unfolding TrimSpace_Nil_iff .
  have i: "http (client readyState) = Some \<lparr>Timeout = Seconds 5\<rparr>
           \<and> http_NewRequest_error okServer ''GET''
                (URL (buildURL (client readyState) ''scheduler/jobs/search''
                   [(''name'', ''my job'')])) = None"
    by (simp add: readyState_def initialised_def DefaultChronos_def okServer_def server_def)
  have q: "RawQuery (URL (client readyState)) = []"
    by (simp add: readyState_def initialised_def DefaultChronos_def)
  have p: "Join [APIPrefix (client readyState), ''scheduler/jobs/search'']
             = ''scheduler/jobs/search''"
    by code_simp
  have e: "QueryEscape ''my job'' = ''my+job''"
    by code_simp
  show ?thesis
    using SearchJobs_blank_or_one_GET [of "[CHR 0x20, CHR 0x09, CHR 0xC2, CHR 0xA0]" okServer readyState]
      SearchJobs_blank_or_one_GET [of "''my job''" okServer readyState] b n i q
    unfolding p e
    by fastforce
qed

lemma apiCall_returns_if_httpCall:
  assumes "httpCall env method body (st\<lparr>client := buildURL (client st) uri queryParams\<rparr>)
             = Return (r, st2)"
  shows "\<exists>res result'. apiCall env method uri queryParams body result st
           = Return (res, result', st2)"
proof (cases r)
  case (Inl err)
  with assms show ?thesis by (simp add: apiCall_def)
next
  case (Inr p)
  obtain status response where p: "p = (status, response)"
    by (cases p)
  show ?thesis
    using apiCall_after_round_trip [OF assms [unfolded Inr p], of result]
    by (cases "Decode env (Body response) result") (auto split: option.splits)
qed

lemma Jobs_returns:
  assumes "http (client st) = Some hc"
  shows "\<exists>res st'. Jobs env st = Return (res, st') \<and> length (wire st') \<le> length (wire st) + 1"
proof -
  have "\<exists>r st2. httpCall env HTTPGet [] (st\<lparr>client := buildURL (client st) ChronosAPIJobs []\<rparr>)
           = Return (r, st2)"
    using assms by (auto simp: httpCall_def split: sum.splits)
  then obtain r st2 where
    "httpCall env HTTPGet [] (st\<lparr>client := buildURL (client st) ChronosAPIJobs []\<rparr>)
       = Return (r, st2)"
    by blast
  from apiCall_returns_if_httpCall [OF this, of "JobsSlot []"]
  obtain res slot where a:
    "apiCall env HTTPGet ChronosAPIJobs [] [] (JobsSlot []) st = Return (res, slot, st2)"
    by blast
  from apiCall_Return_state [OF a] have "length (wire st2) \<le> length (wire st) + 1"
    by auto
  moreover from a have "\<exists>r. Jobs env st = Return (r, st2)"
    by (cases res) (simp add: Jobs_def apiGet_def returnJobs_Return dropStatus_Return)
  ultimately show ?thesis by blast
qed

text \<open>
  C9. \<open>Init\<close> sets the HTTP client and makes the list-jobs call once: the probe returns,
  sending at most one request, and the state \<open>Init\<close> leaves is the state that this one
  call leaves. When the probe fails, with whatever error, \<open>Init\<close> returns the error whose
  text is \<open>Could not reach chronos cluster: \<close> followed by the text of that error; when
  the probe succeeds, \<open>Init\<close> returns no error.
\<close>

theorem Init_probe:
  "(\<exists>res st'. Jobs env (st\<lparr>client := initialised (client st)\<rparr>) = Return (res, st')
       \<and> length (wire st') \<le> length (wire st) + 1)
   \<and> (\<forall>err st'. Jobs env (st\<lparr>client := initialised (client st)\<rparr>) = Return (Inl err, st') \<longrightarrow>
         Init env st
           = Return (Some (ErrorsNew (''Could not reach chronos cluster: '' @ Error err)), st'))
   \<and> (\<forall>jobs st'. Jobs env (st\<lparr>client := initialised (client st)\<rparr>) = Return (Inr jobs, st') \<longrightarrow>
         Init env st = Return (None, st'))"
proof (intro conjI allI impI)
  have "http (client (st\<lparr>client := initialised (client st)\<rparr>))
          = Some \<lparr>Timeout = Seconds (RequestTimeout (client st))\<rparr>"
    by (simp add: initialised_def)
  from Jobs_returns [OF this, of env]
  show "\<exists>res st'. Jobs env (st\<lparr>client := initialised (client st)\<rparr>) = Return (res, st')
       \<and> length (wire st') \<le> length (wire st) + 1"
    by simp
next
  fix err st'
  assume "Jobs env (st\<lparr>client := initialised (client st)\<rparr>) = Return (Inl err, st')"
  then show "Init env st
           = Return (Some (ErrorsNew (''Could not reach chronos cluster: '' @ Error err)), st')"
    by (simp add: Init_def initialised_def Let_def)
next
  fix jobs st'
  assume "Jobs env (st\<lparr>client := initialised (client st)\<rparr>) = Return (Inr jobs, st')"
  then show "Init env st = Return (None, st')"
    by (simp add: Init_def initialised_def Let_def)
qed

lemma Jobs_server_ready:
  "\<exists>st'. Jobs (server (Inr r)) (freshState\<lparr>client := initialised (client freshState)\<rparr>)
     = Return ((case fst (if ContentLength r \<noteq> 0
                          then Decode (server (Inr r)) (Body r) (JobsSlot [])
                          else (None, JobsSlot [])) of
                  Some e \<Rightarrow> Inl e
                | None \<Rightarrow> if StatusCode r < 200 \<or> StatusCode r > 299
                           then Inl (ErrorsNew (Status r))
                           else Inr (derefJobs (snd (if ContentLength r \<noteq> 0
                                  then Decode (server (Inr r)) (Body r) (JobsSlot [])
                                  else (None, JobsSlot []))))), st')"
proof -
  have e: "freshState\<lparr>client := initialised (client freshState)\<rparr> = readyState"
    by (simp add: freshState_def readyState_def)
  obtain st' where "httpCall (server (Inr r)) HTTPGet []
        (readyState\<lparr>client := buildURL (client readyState) ChronosAPIJobs []\<rparr>)
      = Return (Inr (StatusCode r, r), st')"
    using httpCall_server_ready by blast
  from apiCall_after_round_trip [OF this, of "JobsSlot []"] show ?thesis
    unfolding e
    by (auto simp: Jobs_def apiGet_def dropStatus_def returnJobs_def split: prod.splits option.splits)
qed

theorem Init_probe_witness:
  "(\<exists>st'. Init (server (Inr (response 500 ''500 Internal Server Error'' 0 []))) freshState
      = Return (Some (ErrorsNew ''Could not reach chronos cluster: 500 Internal Server Error''), st'))
   \<and> (\<exists>st'. Init okServer freshState = Return (None, st'))"
proof -
  obtain st1 where j1: "Jobs (server (Inr (response 500 ''500 Internal Server Error'' 0 [])))
        (freshState\<lparr>client := initialised (client freshState)\<rparr>)
      = Return (Inl (ErrorsNew ''500 Internal Server Error''), st1)"
    using Jobs_server_ready [of "response 500 ''500 Internal Server Error'' 0 []"]
    by (auto simp: response_def)
  obtain st2 where j2: "Jobs okServer (freshState\<lparr>client := initialised (client freshState)\<rparr>)
      = Return (Inr [], st2)"
    using Jobs_server_ready [of "response 200 ''200 OK'' 2 ''[]''"]
    by (auto simp: response_def okServer_def Decode_sample_Jobs)
  from Init_probe [of "server (Inr (response 500 ''500 Internal Server Error'' 0 []))" freshState] j1
  have "Init (server (Inr (response 500 ''500 Internal Server Error'' 0 []))) freshState
      = Return (Some (ErrorsNew ''Could not reach chronos cluster: 500 Internal Server Error''), st1)"
    by simp
  moreover from Init_probe [of okServer freshState] j2
  have "Init okServer freshState = Return (None, st2)"
    by simp
  ultimately show ?thesis by blast
qed

lemma apiPost_Return_state:
  assumes "apiPost env uri queryParams job result st = Return (err, slot, st')"
  shows "wire st' = wire st
         \<or> (\<exists>payload. json_Marshal env job = Inr payload
              \<and> wire st' = wire st @ [builtRequest (buildURL (client st) uri queryParams) HTTPPost payload])"
proof (cases "json_Marshal env job")
  case (Inl msg)
  with assms show ?thesis by (simp add: apiPost_def)
next
  case (Inr payload)
  with assms obtain status where
    "apiCall env HTTPPost uri queryParams payload result st = Return ((status, err), slot, st')"
    by (auto simp: apiPost_def dropStatus_Return)
  from apiCall_Return_state [OF this] Inr show ?thesis by auto
qed

lemma apiPost_sends:
  assumes "http (client st) = Some hc"
    and "json_Marshal env job = Inr payload"
    and "http_NewRequest_error env HTTPPost (URL (buildURL (client st) uri queryParams)) = None"
  shows "\<exists>err slot. apiPost env uri queryParams job result st
           = Return (err, slot,
               \<lparr>client = buildURL (client st) uri queryParams,
                wire = wire st @ [builtRequest (buildURL (client st) uri queryParams) HTTPPost payload]\<rparr>)"
proof -
  from apiCall_sends [OF assms(1,3), of payload result]
  obtain res slot where "apiCall env HTTPPost uri queryParams payload result st
      = Return (res, slot,
          \<lparr>client = buildURL (client st) uri queryParams,
           wire = wire st @ [builtRequest (buildURL (client st) uri queryParams) HTTPPost payload]\<rparr>)"
    by blast
  then show ?thesis
    using assms(2) by (cases res) (simp add: apiPost_def dropStatus_Return)
qed

lemma RunOnceNowJob_eq:
  "RunOnceNowJob env job st
     = AddScheduledJob env (job\<lparr>Schedule := ''R1//PT2M'', Epsilon := ''PT10M''\<rparr>) st"
  by (simp add: RunOnceNowJob_def RunOnceNowSchedule_def Let_def)

lemma UnscheduleJob_eq:
  "UnscheduleJob env job st = AddScheduledJob env (job\<lparr>Schedule := ''R0//PT0M''\<rparr>) st"
  by (simp add: UnscheduleJob_def AddScheduledJob_def Let_def)

lemma AddScheduledJob_Return_state:
  assumes "AddScheduledJob env j st = Return (err, j', st')"
  shows "j' = j
         \<and> (wire st' = wire st
            \<or> (\<exists>request. wire st' = wire st @ [request]
                 \<and> Method request = ''POST''
                 \<and> Path (Target request) = Join [APIPrefix (client st), ''scheduler/iso8601'']
                 \<and> json_Marshal env j = Inr (ReqBody request)))"
proof -
  from assms obtain slot where j: "j' = j"
    and a: "apiPost env ChronosAPIAddScheduledJob [] j NilSlot st = Return (err, slot, st')"
    by (auto simp: AddScheduledJob_def withJob_Return returnErr_Return)
  from apiPost_Return_state [OF a] j show ?thesis
    by (auto simp: builtRequest_fields buildURL_Path HTTPPost_def ChronosAPIAddScheduledJob_def)
qed

lemma AddScheduledJob_sends:
  assumes "http (client st) = Some hc"
    and "json_Marshal env j = Inr payload"
    and "http_NewRequest_error env ''POST''
           (URL (buildURL (client st) ''scheduler/iso8601'' [])) = None"
  shows "\<exists>err st' request. AddScheduledJob env j st = Return (err, j, st')
           \<and> wire st' = wire st @ [request]
           \<and> Method request = ''POST''
           \<and> Path (Target request) = Join [APIPrefix (client st), ''scheduler/iso8601'']
           \<and> ReqBody request = payload"
proof -
  let ?c = "buildURL (client st) ChronosAPIAddScheduledJob []"
  have "http_NewRequest_error env HTTPPost (URL ?c) = None"
    using assms(3) by (simp add: HTTPPost_def ChronosAPIAddScheduledJob_def)
  from apiPost_sends [OF assms(1,2) this, of NilSlot]
  obtain err slot where "apiPost env ChronosAPIAddScheduledJob [] j NilSlot st
      = Return (err, slot, \<lparr>client = ?c, wire = wire st @ [builtRequest ?c HTTPPost payload]\<rparr>)"
    by blast
  then have "AddScheduledJob env j st
      = Return (err, j, \<lparr>client = ?c, wire = wire st @ [builtRequest ?c HTTPPost payload]\<rparr>)"
    by (simp add: AddScheduledJob_def withJob_def returnErr_def)
  moreover have "Method (builtRequest ?c HTTPPost payload) = ''POST''
      \<and> Path (Target (builtRequest ?c HTTPPost payload))
          = Join [APIPrefix (client st), ''scheduler/iso8601'']
      \<and> ReqBody (builtRequest ?c HTTPPost payload) = payload"
    by (simp add: builtRequest_fields buildURL_Path HTTPPost_def ChronosAPIAddScheduledJob_def)
  ultimately show ?thesis
    by (metis State.select_convs(2))
qed

text \<open>
  C6. \<open>RunOnceNowJob\<close> is the add-scheduled-job call on the caller's job with
  \<open>schedule\<close> set to \<open>R1//PT2M\<close> and \<open>epsilon\<close> set to \<open>PT10M\<close>, \<open>UnscheduleJob\<close> the
  same call on the job with \<open>schedule\<close> set to \<open>R0//PT0M\<close>; putting the old values of
  these fields back gives the job as supplied, so no other field has changed. The
  add-scheduled-job call is a POST to \<open>scheduler/iso8601\<close> whose body is the JSON payload
  of the job it is given: any request it sends is that POST, and on an initialised client
  it sends exactly that one request when the job can be marshalled and
  \<open>http.NewRequest\<close> accepts the target.
\<close>

theorem RunOnceNowJob_UnscheduleJob_body:
  "RunOnceNowJob env job st
     = AddScheduledJob env (job\<lparr>Schedule := ''R1//PT2M'', Epsilon := ''PT10M''\<rparr>) st
   \<and> UnscheduleJob env job st = AddScheduledJob env (job\<lparr>Schedule := ''R0//PT0M''\<rparr>) st
   \<and> (job\<lparr>Schedule := ''R1//PT2M'', Epsilon := ''PT10M''\<rparr>)
        \<lparr>Schedule := Schedule job, Epsilon := Epsilon job\<rparr> = job
   \<and> (job\<lparr>Schedule := ''R0//PT0M''\<rparr>)\<lparr>Schedule := Schedule job\<rparr> = job
   \<and> AddScheduledJob env j st
       = withJob j (returnErr (apiPost env ''scheduler/iso8601'' [] j NilSlot st))
   \<and> (\<forall>err j' st'. AddScheduledJob env j st = Return (err, j', st') \<longrightarrow>
         j' = j
         \<and> (wire st' = wire st
            \<or> (\<exists>request. wire st' = wire st @ [request]
                 \<and> Method request = ''POST''
                 \<and> Path (Target request) = Join [APIPrefix (client st), ''scheduler/iso8601'']
                 \<and> json_Marshal env j = Inr (ReqBody request))))
   \<and> (\<forall>hc payload. http (client st) = Some hc \<and> json_Marshal env j = Inr payload
         \<and> http_NewRequest_error env ''POST''
              (URL (buildURL (client st) ''scheduler/iso8601'' [])) = None \<longrightarrow>
         (\<exists>err st' request. AddScheduledJob env j st = Return (err, j, st')
            \<and> wire st' = wire st @ [request]
            \<and> Method request = ''POST''
            \<and> Path (Target request) = Join [APIPrefix (client st), ''scheduler/iso8601'']
            \<and> ReqBody request = payload))"
proof (intro conjI allI impI)
  show "RunOnceNowJob env job st
     = AddScheduledJob env (job\<lparr>Schedule := ''R1//PT2M'', Epsilon := ''PT10M''\<rparr>) st"
    by (rule RunOnceNowJob_eq)
  show "UnscheduleJob env job st = AddScheduledJob env (job\<lparr>Schedule := ''R0//PT0M''\<rparr>) st"
    by (rule UnscheduleJob_eq)
  show "(job\<lparr>Schedule := ''R1//PT2M'', Epsilon := ''PT10M''\<rparr>)
        \<lparr>Schedule := Schedule job, Epsilon := Epsilon job\<rparr> = job"
    by simp
  show "(job\<lparr>Schedule := ''R0//PT0M''\<rparr>)\<lparr>Schedule := Schedule job\<rparr> = job"
    by simp
  show "AddScheduledJob env j st
       = withJob j (returnErr (apiPost env ''scheduler/iso8601'' [] j NilSlot st))"
    by (simp add: AddScheduledJob_def ChronosAPIAddScheduledJob_def)
next
  fix err j' st'
  assume "AddScheduledJob env j st = Return (err, j', st')"
  from AddScheduledJob_Return_state [OF this]
  show "j' = j" and "wire st' = wire st
            \<or> (\<exists>request. wire st' = wire st @ [request]
                 \<and> Method request = ''POST''
                 \<and> Path (Target request) = Join [APIPrefix (client st), ''scheduler/iso8601'']
                 \<and> json_Marshal env j = Inr (ReqBody request))"
    by simp_all
next
  fix hc payload
  assume "http (client st) = Some hc \<and> json_Marshal env j = Inr payload
         \<and> http_NewRequest_error env ''POST''
              (URL (buildURL (client st) ''scheduler/iso8601'' [])) = None"
  then show "\<exists>err st' request. AddScheduledJob env j st = Return (err, j, st')
            \<and> wire st' = wire st @ [request]
            \<and> Method request = ''POST''
            \<and> Path (Target request) = Join [APIPrefix (client st), ''scheduler/iso8601'']
            \<and> ReqBody request = payload"
    using AddScheduledJob_sends by blast
qed

theorem RunOnceNowJob_UnscheduleJob_body_witness:
  "(\<exists>err st' request.
      RunOnceNowJob okServer sampleJob readyState
        = Return (err, sampleJob\<lparr>Schedule := ''R1//PT2M'', Epsilon := ''PT10M''\<rparr>, st')
      \<and> wire st' = wire readyState @ [request]
      \<and> Method request = ''POST''
      \<and> Path (Target request) = ''scheduler/iso8601''
      \<and> ReqBody request = ''{name:nightly,epsilon:PT10M,schedule:R1//PT2M}'')
   \<and> (\<exists>err st' request.
      UnscheduleJob okServer sampleJob readyState
        = Return (err, sampleJob\<lparr>Schedule := ''R0//PT0M''\<rparr>, st')
      \<and> wire st' = wire readyState @ [request]
      \<and> Method request = ''POST''
      \<and> Path (Target request) = ''scheduler/iso8601''
      \<and> ReqBody request = ''{name:nightly,epsilon:PT30M,schedule:R0//PT0M}'')"
proof -
  let ?run = "sampleJob\<lparr>Schedule := ''R1//PT2M'', Epsilon := ''PT10M''\<rparr>"
  let ?stop = "sampleJob\<lparr>Schedule := ''R0//PT0M''\<rparr>"
  have i: "http (client readyState) = Some \<lparr>Timeout = Seconds 5\<rparr>"
    by (simp add: readyState_def initialised_def DefaultChronos_def)
  have a: "http_NewRequest_error okServer ''POST''
             (URL (buildURL (client readyState) ''scheduler/iso8601'' [])) = None"
    by (simp add: okServer_def server_def)
  have m1: "json_Marshal okServer ?run = Inr ''{name:nightly,epsilon:PT10M,schedule:R1//PT2M}''"
    by (simp add: okServer_def server_def sampleMarshal_def sampleJob_def)
  have m2: "json_Marshal okServer ?stop = Inr ''{name:nightly,epsilon:PT30M,schedule:R0//PT0M}''"
    by (simp add: okServer_def server_def sampleMarshal_def sampleJob_def)
  have p: "Join [APIPrefix (client readyState), ''scheduler/iso8601''] = ''scheduler/iso8601''"
    by code_simp
  note run = RunOnceNowJob_UnscheduleJob_body [of okServer sampleJob readyState ?run]
  note stop = RunOnceNowJob_UnscheduleJob_body [of okServer sampleJob readyState ?stop]
  have r1: "RunOnceNowJob okServer sampleJob readyState = AddScheduledJob okServer ?run readyState"
    using run by (rule conjunct1)
  have u1: "UnscheduleJob okServer sampleJob readyState = AddScheduledJob okServer ?stop readyState"
    using stop [THEN conjunct2] by (rule conjunct1)
  have r2: "\<exists>err st' request. AddScheduledJob okServer ?run readyState = Return (err, ?run, st')
            \<and> wire st' = wire readyState @ [request]
            \<and> Method request = ''POST''
            \<and> Path (Target request) = ''scheduler/iso8601''
            \<and> ReqBody request = ''{name:nightly,epsilon:PT10M,schedule:R1//PT2M}''"
    using run [THEN conjunct2, THEN conjunct2, THEN conjunct2, THEN conjunct2, THEN conjunct2,
        THEN conjunct2, rule_format, OF conjI [OF i conjI [OF m1 a]]]
    unfolding p .
  have u2: "\<exists>err st' request. AddScheduledJob okServer ?stop readyState = Return (err, ?stop, st')
            \<and> wire st' = wire readyState @ [request]
            \<and> Method request = ''POST''
            \<and> Path (Target request) = ''scheduler/iso8601''
            \<and> ReqBody request = ''{name:nightly,epsilon:PT30M,schedule:R0//PT0M}''"
    using stop [THEN conjunct2, THEN conjunct2, THEN conjunct2, THEN conjunct2, THEN conjunct2,
        THEN conjunct2, rule_format, OF conjI [OF i conjI [OF m2 a]]]
    unfolding p .
  show ?thesis
    unfolding r1 u1 using r2 u2 by (rule conjI)
qed

section \<open>Frame: what every call leaves unchanged\<close>

lemma sameConfig_refl: "sameConfig c c"
  by (simp add: sameConfig_def)

lemma sameConfig_buildURL: "sameConfig c (buildURL c uri queryParams)"
  by (simp add: sameConfig_def buildURL_frame)

lemma apiCall_sameConfig:
  assumes "apiCall env method uri queryParams body result st = Return (res, result', st')"
  shows "sameConfig (client st) (client st')"
  using apiCall_Return_state [OF assms] by (simp add: sameConfig_buildURL)

lemma dropStatus_sameConfig:
  assumes "dropStatus (apiCall env method uri queryParams body result st)
             = Return (err, result', st')"
  shows "sameConfig (client st) (client st')"
  using assms apiCall_sameConfig by (auto simp: dropStatus_Return)

lemma apiPost_sameConfig:
  assumes "apiPost env uri queryParams job result st = Return (err, result', st')"
  shows "sameConfig (client st) (client st')"
proof (cases "json_Marshal env job")
  case (Inl msg)
  with assms show ?thesis by (simp add: apiPost_def sameConfig_refl)
next
  case (Inr payload)
  with assms show ?thesis by (simp add: apiPost_def dropStatus_sameConfig)
qed

lemma AddScheduledJob_sameConfig:
  assumes "AddScheduledJob env job st = Return (err, job', st')"
  shows "sameConfig (client st) (client st')"
  using assms apiPost_sameConfig
  by (auto simp: AddScheduledJob_def withJob_Return returnErr_Return)

lemma perform_sameConfig:
  assumes "perform env op st = Some st'"
  shows "sameConfig (client st) (client st')"
proof (cases op)
  case OpJobs
  with assms obtain res where "Jobs env st = Return (res, st')"
    by (cases "Jobs env st") auto
  then show ?thesis
    using dropStatus_sameConfig by (auto simp: Jobs_def apiGet_def returnJobs_Return)
next
  case (OpDeleteJob name)
  with assms obtain res where "DeleteJob env name st = Return (res, st')"
    by (cases "DeleteJob env name st") auto
  then show ?thesis
    using dropStatus_sameConfig by (auto simp: DeleteJob_def apiDelete_def returnErr_Return)
next
  case (OpDeleteJobTasks name)
  with assms obtain res where "DeleteJobTasks env name st = Return (res, st')"
    by (cases "DeleteJobTasks env name st") auto
  then show ?thesis
    using dropStatus_sameConfig by (auto simp: DeleteJobTasks_def apiDelete_def returnErr_Return)
next
  case (OpStartJob name args)
  with assms obtain res where "StartJob env name args st = Return (res, st')"
    by (cases "StartJob env name args st") auto
  then show ?thesis
    using dropStatus_sameConfig by (auto simp: StartJob_def apiPut_def returnErr_Return)
next
  case (OpAddScheduledJob job)
  with assms obtain err job' where "AddScheduledJob env job st = Return (err, job', st')"
    by (cases "AddScheduledJob env job st") auto
  then show ?thesis by (rule AddScheduledJob_sameConfig)
next
  case (OpAddDependentJob job)
  with assms obtain err job' where "AddDependentJob env job st = Return (err, job', st')"
    by (cases "AddDependentJob env job st") auto
  then show ?thesis
    using apiPost_sameConfig
    by (auto simp: AddDependentJob_def withJob_Return returnErr_Return)
next
  case (OpRunOnceNowJob job)
  with assms obtain err job' where "RunOnceNowJob env job st = Return (err, job', st')"
    by (cases "RunOnceNowJob env job st") auto
  then show ?thesis
    unfolding RunOnceNowJob_eq by (rule AddScheduledJob_sameConfig)
next
  case (OpUnscheduleJob job)
  with assms obtain err job' where "UnscheduleJob env job st = Return (err, job', st')"
    by (cases "UnscheduleJob env job st") auto
  then show ?thesis
    unfolding UnscheduleJob_eq by (rule AddScheduledJob_sameConfig)
next
  case (OpSearchJobs name)
  with assms obtain res where "SearchJobs env name st = Return (res, st')"
    by (cases "SearchJobs env name st") auto
  then show ?thesis
    using dropStatus_sameConfig
    by (auto simp: SearchJobs_def apiGet_def returnJobs_Return sameConfig_refl split: if_splits)
qed

text \<open>
  C1 (as stated, refuted). The claim says that a call leaves the client's base address
  as it was and that the URL of a call carries no query parameter of an earlier call.
  After \<open>SearchJobs("chronos")\<close> on the default client the URL of the client has
  changed, and the list-jobs call that follows, which has no parameters, is sent with
  the query \<open>name=chronos\<close>.
\<close>

theorem calls_share_request_target_counterexample:
  "URL (client (stateAfter readyState (SearchJobs okServer ''chronos'' readyState)))
     \<noteq> URL (client readyState)
   \<and> Target (last (wire (stateAfter readyState
          (Jobs okServer (stateAfter readyState
             (SearchJobs okServer ''chronos'' readyState))))))
       = \<lparr>Scheme = ''http'', Host = ''127.0.0.1:4400'',
          Path = ''scheduler/jobs'', RawQuery = ''name=chronos''\<rparr>"
  by code_simp

text \<open>
  C1 (amended). Every operation leaves the client's API prefix, timeout, credentials
  and HTTP client and the scheme and host of its base address as they were. An executor
  call writes the target of that call into the path and query of the client's URL, and
  any request it sends goes to that target: the path is the API prefix joined with
  exactly that call's resource path, whatever the earlier calls were, and on a client
  whose URL carries no query the query is exactly the encoding of that call's query
  parameters.
\<close>

theorem calls_frame_and_target:
  "(\<forall>st'. perform env op st = Some st' \<longrightarrow> sameConfig (client st) (client st'))
   \<and> (\<forall>res result' st'.
         apiCall env method uri queryParams body result st = Return (res, result', st') \<longrightarrow>
           sameConfig (client st) (client st')
           \<and> Path (URL (client st')) = Join [APIPrefix (client st), uri]
           \<and> (RawQuery (URL (client st)) = [] \<longrightarrow>
                RawQuery (URL (client st'))
                  = Encode (foldl (\<lambda>q (k, v). Add q k v) [] queryParams))
           \<and> (wire st' = wire st
               \<or> (\<exists>request. wire st' = wire st @ [request]
                     \<and> Target request = URL (client st')
                     \<and> Method request = method \<and> ReqBody request = body
                     \<and> Auth request = Some (Username (BasicAuth (client st)),
                                             Password (BasicAuth (client st))))))"
proof (intro conjI allI impI)
  fix st'
  assume "perform env op st = Some st'"
  then show "sameConfig (client st) (client st')"
    by (rule perform_sameConfig)
next
  fix res result' st'
  assume a: "apiCall env method uri queryParams body result st = Return (res, result', st')"
  note s = apiCall_Return_state [OF a]
  show "sameConfig (client st) (client st')"
    using a by (rule apiCall_sameConfig)
  show "Path (URL (client st')) = Join [APIPrefix (client st), uri]"
    using s by (simp add: buildURL_Path)
  show "wire st' = wire st
               \<or> (\<exists>request. wire st' = wire st @ [request]
                     \<and> Target request = URL (client st')
                     \<and> Method request = method \<and> ReqBody request = body
                     \<and> Auth request = Some (Username (BasicAuth (client st)),
                                             Password (BasicAuth (client st))))"
    using s by (auto simp: builtRequest_fields buildURL_frame)
  assume "RawQuery (URL (client st)) = []"
  then show "RawQuery (URL (client st'))
                  = Encode (foldl (\<lambda>q (k, v). Add q k v) [] queryParams)"
    using s by (simp add: buildURL_RawQuery Query_empty)
qed

theorem calls_frame_and_target_witness:
  "(\<exists>st'. perform okServer (OpSearchJobs ''chronos'') readyState = Some st'
           \<and> sameConfig (client readyState) (client st'))
   \<and> RawQuery (URL (client readyState)) = []
   \<and> (\<exists>res result' st'.
         apiCall okServer HTTPPut ''scheduler/job/nightly'' [(''arguments'', ''-v'')] []
           NilSlot readyState = Return (res, result', st')
         \<and> Path (URL (client st')) = ''scheduler/job/nightly''
         \<and> RawQuery (URL (client st')) = ''arguments=-v'')"
proof -
  have "perform okServer (OpSearchJobs ''chronos'') readyState \<noteq> None"
    by code_simp
  then obtain st1 where p: "perform okServer (OpSearchJobs ''chronos'') readyState = Some st1"
    by blast
  have "returned (apiCall okServer HTTPPut ''scheduler/job/nightly'' [(''arguments'', ''-v'')] []
           NilSlot readyState) \<noteq> None"
    by code_simp
  then obtain res result' st2 where a:
    "apiCall okServer HTTPPut ''scheduler/job/nightly'' [(''arguments'', ''-v'')] []
       NilSlot readyState = Return (res, result', st2)"
    by (cases "apiCall okServer HTTPPut ''scheduler/job/nightly'' [(''arguments'', ''-v'')] []
           NilSlot readyState") auto
  have q: "RawQuery (URL (client readyState)) = []"
    by (simp add: readyState_def initialised_def DefaultChronos_def)
  have j: "Join [APIPrefix (client readyState), ''scheduler/job/nightly'']
             = ''scheduler/job/nightly''"
    by code_simp
  have e: "Encode (foldl (\<lambda>q (k, v). Add q k v) [] [(''arguments'', ''-v'')]) = ''arguments=-v''"
    by code_simp
  note t = calls_frame_and_target [of okServer "OpSearchJobs ''chronos''" readyState HTTPPut
      "''scheduler/job/nightly''" "[(''arguments'', ''-v'')]" "[]" NilSlot]
  have c1: "sameConfig (client readyState) (client st1)"
    using t [THEN conjunct1, rule_format, OF p] .
  have c2: "Path (URL (client st2)) = ''scheduler/job/nightly''
            \<and> RawQuery (URL (client st2)) = ''arguments=-v''"
    using t [THEN conjunct2, rule_format, OF a] q unfolding j e by blast
  from p c1 q a c2 show ?thesis by blast
qed

end
